theory Spec2Isabelle
  imports Main
begin

section \<open>Values, exceptions and responses\<close>

text \<open>
  The resources of \<^verbatim>\<open>keystone/api/groups.py\<close> move JSON-shaped Python values around:
  group and user references returned by the identity backend, the request body, and the
  audit initiator. A Python dict literal is a \<open>JDict\<close> (an association list, in
  insertion order).
\<close>

datatype json =
    JNull
  | JBool bool
  | JInt int
  | JStr string
  | JList "json list"
  | JDict "(string \<times> json) list"

text \<open>
  The enforcement target \<^verbatim>\<open>target = {}\<close> is a dict from the keys \<^verbatim>\<open>'group'\<close> and
  \<^verbatim>\<open>'user'\<close> to references: a map. Driver hints are the list of recognised filters
  with their requested values.
\<close>

type_synonym target = "string \<rightharpoonup> json"
type_synonym hints = "(string \<times> json) list"

text \<open>
  The exception classes of \<^verbatim>\<open>keystone.exception\<close> that the handlers meet.
  \<open>GroupNotFound\<close> and \<open>UserNotFound\<close> carry the id that was looked up,
  \<open>ForbiddenAction\<close> the action that was refused; \<open>NotFound\<close> is any other
  not-found kind and \<open>Unexpected\<close> any exception of another class.
\<close>

datatype exn =
    GroupNotFound string
  | UserNotFound string
  | NotFound string
  | ForbiddenAction string
  | ValidationError string
  | Unexpected string

text \<open>\<^verbatim>\<open>except exception.GroupNotFound\<close> and \<^verbatim>\<open>except exception.UserNotFound\<close>.\<close>

fun is_GroupNotFound :: "exn \<Rightarrow> bool" where
  "is_GroupNotFound (GroupNotFound _) = True"
| "is_GroupNotFound _ = False"

fun is_UserNotFound :: "exn \<Rightarrow> bool" where
  "is_UserNotFound (UserNotFound _) = True"
| "is_UserNotFound _ = False"

text \<open>
  What a handler returns to flask-restful: a body alone, or a pair of a body (possibly
  \<^verbatim>\<open>None\<close>) and a status code.
\<close>

datatype body =
    Wrapped_member string json
  | Wrapped_collection string "json list" hints

datatype retval =
    Ret body
  | Ret_status "body option" nat

definition CREATED :: nat where
  "CREATED = 201"

definition NO_CONTENT :: nat where
  "NO_CONTENT = 204"

section \<open>The collaborators\<close>

text \<open>
  Every call that leaves the module (to \<^verbatim>\<open>PROVIDERS.identity_api\<close> or to
  \<^verbatim>\<open>ENFORCER.enforce_call\<close>) is recorded, with its arguments, in the order in which it
  is made.
\<close>

datatype event =
    Get_group string
  | Get_user string
  | List_groups "string option" hints
  | List_users_in_group string hints
  | Create_group json json
  | Update_group string json json
  | Delete_group string json
  | Check_user_in_group string string
  | Add_user_to_group string string json
  | Remove_user_from_group string string json
  | Enforce_call string "target option" "string list option"

text \<open>
  \<^verbatim>\<open>PROVIDERS.identity_api\<close>: the identity backend is not part of the module. Each of
  its operations is a parameter: a function of the backend's state \<open>'b\<close> that returns
  a value or raises, and the state after the call.
\<close>

record 'b identity_api =
  get_group :: "string \<Rightarrow> 'b \<Rightarrow> (exn + json) \<times> 'b"
  get_user :: "string \<Rightarrow> 'b \<Rightarrow> (exn + json) \<times> 'b"
  list_groups :: "string option \<Rightarrow> hints \<Rightarrow> 'b \<Rightarrow> (exn + json list) \<times> 'b"
  list_users_in_group :: "string \<Rightarrow> hints \<Rightarrow> 'b \<Rightarrow> (exn + json list) \<times> 'b"
  create_group :: "json \<Rightarrow> json \<Rightarrow> 'b \<Rightarrow> (exn + json) \<times> 'b"
  update_group :: "string \<Rightarrow> json \<Rightarrow> json \<Rightarrow> 'b \<Rightarrow> (exn + json) \<times> 'b"
  delete_group :: "string \<Rightarrow> json \<Rightarrow> 'b \<Rightarrow> (exn + unit) \<times> 'b"
  check_user_in_group :: "string \<Rightarrow> string \<Rightarrow> 'b \<Rightarrow> (exn + unit) \<times> 'b"
  add_user_to_group :: "string \<Rightarrow> string \<Rightarrow> json \<Rightarrow> 'b \<Rightarrow> (exn + unit) \<times> 'b"
  remove_user_from_group :: "string \<Rightarrow> string \<Rightarrow> json \<Rightarrow> 'b \<Rightarrow> (exn + unit) \<times> 'b"

text \<open>
  The rest of what a request sees: the policy decision behind \<^verbatim>\<open>ENFORCER\<close> for this
  caller, the parsed request body, the schema validator, the helpers inherited from
  \<^verbatim>\<open>ks_flask.ResourceBase\<close>, and the audit initiator.
\<close>

record 'b env =
  identity_api :: "'b identity_api"
  policy :: "string \<Rightarrow> target option \<Rightarrow> string list option \<Rightarrow> bool"
  request_body_json :: "(string \<times> json) list"
  schema_accepts :: "string \<Rightarrow> json \<Rightarrow> bool"
  normalize_dict :: "json \<Rightarrow> json"
  normalize_domain_id :: "json \<Rightarrow> exn + json"
  domain_id_for_list_request :: "exn + string option"
  build_driver_hints :: "string list \<Rightarrow> hints"
  audit_initiator :: json

text \<open>The state a handler runs in: the backend's state and the log of calls made so far.\<close>

record 'b world =
  backend :: 'b
  trace :: "event list"

section \<open>Control flow: sequencing, raising and catching\<close>

type_synonym ('b, 'a) prog = "'b world \<Rightarrow> (exn + 'a) \<times> 'b world"

definition succeed :: "'a \<Rightarrow> ('b, 'a) prog" where
  "succeed x = (\<lambda>w. (Inr x, w))"

definition raise :: "exn \<Rightarrow> ('b, 'a) prog" where
  "raise e = (\<lambda>w. (Inl e, w))"

text \<open>Statement sequencing: an exception of the first statement skips the rest.\<close>

definition bind_prog :: "('b, 'a) prog \<Rightarrow> ('a \<Rightarrow> ('b, 'c) prog) \<Rightarrow> ('b, 'c) prog" where
  "bind_prog m f = (\<lambda>w. case m w of (Inl e, w') \<Rightarrow> (Inl e, w') | (Inr x, w') \<Rightarrow> f x w')"

text \<open>
  \<^verbatim>\<open>try: m  except C: h\<close>: the handler runs only for an exception of class \<open>C\<close>; any
  other exception leaves the statement.
\<close>

definition try_except :: "('b, 'a) prog \<Rightarrow> (exn \<Rightarrow> bool) \<Rightarrow> ('b, 'a) prog \<Rightarrow> ('b, 'a) prog" where
  "try_except m catches h =
     (\<lambda>w. case m w of
            (Inl e, w') \<Rightarrow> if catches e then h w' else (Inl e, w')
          | (Inr x, w') \<Rightarrow> (Inr x, w'))"

text \<open>A value computed by a helper that may raise.\<close>

definition lift :: "exn + 'a \<Rightarrow> ('b, 'a) prog" where
  "lift r = (\<lambda>w. (r, w))"

text \<open>A call of a backend operation: logged, then run on the backend's state.\<close>

definition call_backend :: "event \<Rightarrow> ('b \<Rightarrow> (exn + 'a) \<times> 'b) \<Rightarrow> ('b, 'a) prog" where
  "call_backend ev operation =
     (\<lambda>w. case operation (backend w) of
            (r, b') \<Rightarrow> (r, \<lparr>backend = b', trace = trace w @ [ev]\<rparr>))"

text \<open>
  Modelled from the spec: \<^verbatim>\<open>rbac_enforcer.RBACEnforcer.enforce_call\<close> is not in this
  module. Given an action name and an authorization target it decides allow or deny,
  and raises a Forbidden kind on deny.
\<close>

definition enforce_call :: "'b env \<Rightarrow> string \<Rightarrow> target option \<Rightarrow> string list option \<Rightarrow> ('b, unit) prog" where
  "enforce_call env action target_attr filters =
     (\<lambda>w. let w' = \<lparr>backend = backend w,
                     trace = trace w @ [Enforce_call action target_attr filters]\<rparr>
          in if policy env action target_attr filters then (Inr (), w')
             else (Inl (ForbiddenAction action), w'))"

text \<open>
  Modelled from the spec: \<^verbatim>\<open>validation.lazy_validate\<close> is not in this module. It
  validates the shape of the payload against the named schema; a malformed body is a
  ValidationError.
\<close>

definition lazy_validate :: "'b env \<Rightarrow> string \<Rightarrow> json \<Rightarrow> ('b, unit) prog" where
  "lazy_validate env schema_name resource =
     (if schema_accepts env schema_name resource then succeed ()
      else raise (ValidationError schema_name))"

definition body_id :: "json \<Rightarrow> json option" where
  "body_id ref = (case ref of JDict kvs \<Rightarrow> map_of kvs ''id'' | _ \<Rightarrow> None)"

text \<open>
  Modelled from the spec: \<^verbatim>\<open>ResourceBase._require_matching_id\<close> is not in this
  module. Update fails with a validation error when the body carries an id field
  differing from the path id, and passes when the field is absent or equal.
\<close>

definition require_matching_id :: "string \<Rightarrow> json \<Rightarrow> ('b, unit) prog" where
  "require_matching_id group_id ref =
     (case body_id ref of
        None \<Rightarrow> succeed ()
      | Some v \<Rightarrow> if v = JStr group_id then succeed ()
                  else raise (ValidationError ''Cannot change ID''))"

definition collection_key :: string where
  "collection_key = ''groups''"

definition member_key :: string where
  "member_key = ''group''"

text \<open>
  Modelled from the spec: \<^verbatim>\<open>ResourceBase.wrap_member\<close> is not in this module. The
  result is the single representation of the reference under the member key.
\<close>

definition wrap_member :: "json \<Rightarrow> body" where
  "wrap_member ref = Wrapped_member member_key ref"

text \<open>
  Modelled from the spec: \<^verbatim>\<open>ResourceBase.wrap_collection\<close> is not in this module.
  The result is the collection of representations under the collection name, the
  resource's collection key when no name is given.
\<close>

definition wrap_collection :: "json list \<Rightarrow> hints \<Rightarrow> string option \<Rightarrow> body" where
  "wrap_collection refs hs collection_name =
     Wrapped_collection (case collection_name of None \<Rightarrow> collection_key | Some n \<Rightarrow> n) refs hs"

definition dict_get :: "(string \<times> json) list \<Rightarrow> string \<Rightarrow> json \<Rightarrow> json" where
  \<comment> \<open>\<^verbatim>\<open>d.get(key, default)\<close>\<close>
  "dict_get d k dflt = (case map_of d k of None \<Rightarrow> dflt | Some v \<Rightarrow> v)"

section \<open>GroupsResource\<close>

definition GroupsResource_get_group :: "'b env \<Rightarrow> string \<Rightarrow> ('b, retval) prog" where
  "GroupsResource_get_group env group_id =
     bind_prog (enforce_call env ''identity:get_group'' None None) (\<lambda>_.
     bind_prog (call_backend (Get_group group_id)
                  (get_group (identity_api env) group_id)) (\<lambda>ref.
     succeed (Ret (wrap_member ref))))"

definition GroupsResource_list_groups :: "'b env \<Rightarrow> ('b, retval) prog" where
  "GroupsResource_list_groups env =
     (let filters = [''domain_id'', ''name''] in
      bind_prog (enforce_call env ''identity:list_groups'' None (Some filters)) (\<lambda>_.
      let hs = build_driver_hints env filters in
      bind_prog (lift (domain_id_for_list_request env)) (\<lambda>domain.
      bind_prog (call_backend (List_groups domain hs)
                   (list_groups (identity_api env) domain hs)) (\<lambda>refs.
      succeed (Ret (wrap_collection refs hs None))))))"

definition GroupsResource_get :: "'b env \<Rightarrow> string option \<Rightarrow> ('b, retval) prog" where
  "GroupsResource_get env group_id =
     (case group_id of
        Some g \<Rightarrow> GroupsResource_get_group env g
      | None \<Rightarrow> GroupsResource_list_groups env)"

definition GroupsResource_post :: "'b env \<Rightarrow> ('b, retval) prog" where
  "GroupsResource_post env =
     bind_prog (enforce_call env ''identity:create_group'' None None) (\<lambda>_.
     let group = dict_get (request_body_json env) ''group'' (JDict []) in
     bind_prog (lazy_validate env ''group_create'' group) (\<lambda>_.
     let group1 = normalize_dict env group in
     bind_prog (lift (normalize_domain_id env group1)) (\<lambda>group2.
     bind_prog (call_backend (Create_group group2 (audit_initiator env))
                  (create_group (identity_api env) group2 (audit_initiator env))) (\<lambda>ref.
     succeed (Ret_status (Some (wrap_member ref)) CREATED)))))"

definition GroupsResource_patch :: "'b env \<Rightarrow> string \<Rightarrow> ('b, retval) prog" where
  "GroupsResource_patch env group_id =
     bind_prog (enforce_call env ''identity:update_group'' None None) (\<lambda>_.
     let group = dict_get (request_body_json env) ''group'' (JDict []) in
     bind_prog (lazy_validate env ''group_update'' group) (\<lambda>_.
     bind_prog (require_matching_id group_id group) (\<lambda>_.
     bind_prog (call_backend (Update_group group_id group (audit_initiator env))
                  (update_group (identity_api env) group_id group (audit_initiator env))) (\<lambda>ref.
     succeed (Ret (wrap_member ref))))))"

definition GroupsResource_delete :: "'b env \<Rightarrow> string \<Rightarrow> ('b, retval) prog" where
  "GroupsResource_delete env group_id =
     bind_prog (enforce_call env ''identity:delete_group'' None None) (\<lambda>_.
     bind_prog (call_backend (Delete_group group_id (audit_initiator env))
                  (delete_group (identity_api env) group_id (audit_initiator env))) (\<lambda>_.
     succeed (Ret_status None NO_CONTENT)))"

section \<open>GroupUsersResource\<close>

definition GroupUsersResource_get :: "'b env \<Rightarrow> string \<Rightarrow> ('b, retval) prog" where
  "GroupUsersResource_get env group_id =
     (let filters = [''domain_id'', ''enabled'', ''name'', ''password_expires_at''] in
      bind_prog (try_except
                   (bind_prog (call_backend (Get_group group_id)
                                 (get_group (identity_api env) group_id)) (\<lambda>g.
                    succeed (Map.empty(''group'' \<mapsto> g))))
                   is_GroupNotFound
                   (succeed Map.empty)) (\<lambda>target.
      bind_prog (enforce_call env ''identity:list_users_in_group''
                   (Some target) (Some filters)) (\<lambda>_.
      let hs = build_driver_hints env filters in
      bind_prog (call_backend (List_users_in_group group_id hs)
                   (list_users_in_group (identity_api env) group_id hs)) (\<lambda>refs.
      succeed (Ret (wrap_collection refs hs (Some ''users'')))))))"

section \<open>UserGroupCRUDResource\<close>

definition build_enforcement_target_attr :: "'b env \<Rightarrow> string \<Rightarrow> string \<Rightarrow> ('b, target) prog" where
  "build_enforcement_target_attr env user_id group_id =
     bind_prog (try_except
                  (bind_prog (call_backend (Get_group group_id)
                                (get_group (identity_api env) group_id)) (\<lambda>g.
                   succeed (Map.empty(''group'' \<mapsto> g))))
                  is_GroupNotFound
                  (succeed Map.empty)) (\<lambda>target.
     bind_prog (try_except
                  (bind_prog (call_backend (Get_user user_id)
                                (get_user (identity_api env) user_id)) (\<lambda>u.
                   succeed (target(''user'' \<mapsto> u))))
                  is_UserNotFound
                  (succeed target)) (\<lambda>target.
     succeed target))"

definition UserGroupCRUDResource_get :: "'b env \<Rightarrow> string \<Rightarrow> string \<Rightarrow> ('b, retval) prog" where
  "UserGroupCRUDResource_get env group_id user_id =
     bind_prog (build_enforcement_target_attr env user_id group_id) (\<lambda>target.
     bind_prog (enforce_call env ''identity:check_user_in_group'' (Some target) None) (\<lambda>_.
     bind_prog (call_backend (Check_user_in_group user_id group_id)
                  (check_user_in_group (identity_api env) user_id group_id)) (\<lambda>_.
     succeed (Ret_status None NO_CONTENT))))"

definition UserGroupCRUDResource_put :: "'b env \<Rightarrow> string \<Rightarrow> string \<Rightarrow> ('b, retval) prog" where
  "UserGroupCRUDResource_put env group_id user_id =
     bind_prog (build_enforcement_target_attr env user_id group_id) (\<lambda>target.
     bind_prog (enforce_call env ''identity:add_user_to_group'' (Some target) None) (\<lambda>_.
     bind_prog (call_backend (Add_user_to_group user_id group_id (audit_initiator env))
                  (add_user_to_group (identity_api env) user_id group_id
                     (audit_initiator env))) (\<lambda>_.
     succeed (Ret_status None NO_CONTENT))))"

definition UserGroupCRUDResource_delete :: "'b env \<Rightarrow> string \<Rightarrow> string \<Rightarrow> ('b, retval) prog" where
  "UserGroupCRUDResource_delete env group_id user_id =
     bind_prog (build_enforcement_target_attr env user_id group_id) (\<lambda>target.
     bind_prog (enforce_call env ''identity:remove_user_from_group'' (Some target) None) (\<lambda>_.
     bind_prog (call_backend (Remove_user_from_group user_id group_id (audit_initiator env))
                  (remove_user_from_group (identity_api env) user_id group_id
                     (audit_initiator env))) (\<lambda>_.
     succeed (Ret_status None NO_CONTENT))))"

section \<open>Routing\<close>

text \<open>
  The requests that \<^verbatim>\<open>GroupAPI\<close> routes: \<^verbatim>\<open>/groups\<close> and
  \<^verbatim>\<open>/groups/{group_id}\<close> to \<^verbatim>\<open>GroupsResource\<close>, \<^verbatim>\<open>/groups/{group_id}/users\<close> to
  \<^verbatim>\<open>GroupUsersResource\<close> and \<^verbatim>\<open>/groups/{group_id}/users/{user_id}\<close> to
  \<^verbatim>\<open>UserGroupCRUDResource\<close>, each to the method named after the HTTP verb. The path
  variables are in the order of the URL: group id, then user id.
\<close>

datatype request =
    GET_groups
  | GET_group string
  | POST_groups
  | PATCH_group string
  | DELETE_group string
  | GET_group_users string
  | GET_group_user string string
  | PUT_group_user string string
  | DELETE_group_user string string

fun dispatch :: "'b env \<Rightarrow> request \<Rightarrow> ('b, retval) prog" where
  "dispatch env GET_groups = GroupsResource_get env None"
| "dispatch env (GET_group g) = GroupsResource_get env (Some g)"
| "dispatch env POST_groups = GroupsResource_post env"
| "dispatch env (PATCH_group g) = GroupsResource_patch env g"
| "dispatch env (DELETE_group g) = GroupsResource_delete env g"
| "dispatch env (GET_group_users g) = GroupUsersResource_get env g"
| "dispatch env (GET_group_user g u) = UserGroupCRUDResource_get env g u"
| "dispatch env (PUT_group_user g u) = UserGroupCRUDResource_put env g u"
| "dispatch env (DELETE_group_user g u) = UserGroupCRUDResource_delete env g u"

section \<open>Vocabulary of the properties\<close>

text \<open>The action name each handler hands to the enforcer.\<close>

fun action_of :: "request \<Rightarrow> string" where
  "action_of GET_groups = ''identity:list_groups''"
| "action_of (GET_group g) = ''identity:get_group''"
| "action_of POST_groups = ''identity:create_group''"
| "action_of (PATCH_group g) = ''identity:update_group''"
| "action_of (DELETE_group g) = ''identity:delete_group''"
| "action_of (GET_group_users g) = ''identity:list_users_in_group''"
| "action_of (GET_group_user g u) = ''identity:check_user_in_group''"
| "action_of (PUT_group_user g u) = ''identity:add_user_to_group''"
| "action_of (DELETE_group_user g u) = ''identity:remove_user_from_group''"

text \<open>The events that are a call of the backend's primary operation for a request.\<close>

definition is_primary :: "request \<Rightarrow> event \<Rightarrow> bool" where
  "is_primary req ev =
     (case req of
        GET_groups \<Rightarrow> (case ev of List_groups d h \<Rightarrow> True | _ \<Rightarrow> False)
      | GET_group g \<Rightarrow> ev = Get_group g
      | POST_groups \<Rightarrow> (case ev of Create_group b i \<Rightarrow> True | _ \<Rightarrow> False)
      | PATCH_group g \<Rightarrow> (case ev of Update_group g' b i \<Rightarrow> g' = g | _ \<Rightarrow> False)
      | DELETE_group g \<Rightarrow> (case ev of Delete_group g' i \<Rightarrow> g' = g | _ \<Rightarrow> False)
      | GET_group_users g \<Rightarrow> (case ev of List_users_in_group g' h \<Rightarrow> g' = g | _ \<Rightarrow> False)
      | GET_group_user g u \<Rightarrow> ev = Check_user_in_group u g
      | PUT_group_user g u \<Rightarrow> (case ev of Add_user_to_group u' g' i \<Rightarrow> u' = u \<and> g' = g | _ \<Rightarrow> False)
      | DELETE_group_user g u \<Rightarrow>
          (case ev of Remove_user_from_group u' g' i \<Rightarrow> u' = u \<and> g' = g | _ \<Rightarrow> False))"

text \<open>
  A lookup that the target builder lets through: it returned a record, or it raised the
  one exception class that the surrounding \<^verbatim>\<open>try\<close> catches.
\<close>

definition lookup_masked :: "(exn \<Rightarrow> bool) \<Rightarrow> exn + 'a \<Rightarrow> bool" where
  "lookup_masked catches r = (case r of Inl e \<Rightarrow> catches e | Inr x \<Rightarrow> True)"

definition succeeded :: "exn + 'a \<Rightarrow> bool" where
  "succeeded r = (case r of Inl e \<Rightarrow> False | Inr x \<Rightarrow> True)"

text \<open>The target after the group lookup, and after the user lookup.\<close>

definition group_entry :: "exn + json \<Rightarrow> target" where
  "group_entry rg = (case rg of Inr g \<Rightarrow> Map.empty(''group'' \<mapsto> g) | Inl e \<Rightarrow> Map.empty)"

definition user_entry :: "target \<Rightarrow> exn + json \<Rightarrow> target" where
  "user_entry t ru = (case ru of Inr u \<Rightarrow> t(''user'' \<mapsto> u) | Inl e \<Rightarrow> t)"

text \<open>
  The enforcer denies the caller of a membership operation: the target builder returns a
  target, and the policy refuses the action on it.
\<close>

definition denied :: "'b env \<Rightarrow> string \<Rightarrow> string \<Rightarrow> string \<Rightarrow> 'b world \<Rightarrow> bool" where
  "denied env action user_id group_id w =
     (case fst (build_enforcement_target_attr env user_id group_id w) of
        Inr t \<Rightarrow> \<not> policy env action (Some t) None
      | Inl e \<Rightarrow> False)"

subsection \<open>The order prescribed for a request\<close>

text \<open>The filters each handler hands to the enforcer.\<close>

fun filters_of :: "request \<Rightarrow> string list option" where
  "filters_of GET_groups = Some [''domain_id'', ''name'']"
| "filters_of (GET_group_users g) =
     Some [''domain_id'', ''enabled'', ''name'', ''password_expires_at'']"
| "filters_of _ = None"

text \<open>The exception with which a lookup leaves the target builder, if it does.\<close>

definition unmasked :: "(exn \<Rightarrow> bool) \<Rightarrow> exn + 'a \<Rightarrow> exn option" where
  "unmasked catches r =
     (case r of Inl e \<Rightarrow> if catches e then None else Some e | Inr x \<Rightarrow> None)"

text \<open>
  The target that enforcement is to be given, as the specification's section 4.1 has it,
  computed from the backend's answers alone: the group, if it resolves, for a listing;
  the group and then the user, each if it resolves, for a membership operation. An
  exception other than the entity's not-found ends the building.
\<close>

definition group_only_target :: "'b env \<Rightarrow> string \<Rightarrow> 'b world \<Rightarrow> exn + target option" where
  "group_only_target env g w =
     (case get_group (identity_api env) g (backend w) of
        (rg, b1) \<Rightarrow>
          (case unmasked is_GroupNotFound rg of
             Some e \<Rightarrow> Inl e
           | None \<Rightarrow> Inr (Some (group_entry rg))))"

definition membership_target :: "'b env \<Rightarrow> string \<Rightarrow> string \<Rightarrow> 'b world \<Rightarrow> exn + target option" where
  "membership_target env g u w =
     (case get_group (identity_api env) g (backend w) of
        (rg, b1) \<Rightarrow>
          (case unmasked is_GroupNotFound rg of
             Some e \<Rightarrow> Inl e
           | None \<Rightarrow>
               (case get_user (identity_api env) u b1 of
                  (ru, b2) \<Rightarrow>
                    (case unmasked is_UserNotFound ru of
                       Some e \<Rightarrow> Inl e
                     | None \<Rightarrow> Inr (Some (user_entry (group_entry rg) ru))))))"

text \<open>The lookups that building this target takes: the user is looked up only once the
  group lookup has not ended the building.\<close>

definition membership_lookups :: "'b env \<Rightarrow> string \<Rightarrow> string \<Rightarrow> 'b world \<Rightarrow> event list" where
  "membership_lookups env g u w =
     (case get_group (identity_api env) g (backend w) of
        (rg, b1) \<Rightarrow>
          (case unmasked is_GroupNotFound rg of
             Some e \<Rightarrow> [Get_group g]
           | None \<Rightarrow> [Get_group g, Get_user u]))"

fun lookups_made :: "'b env \<Rightarrow> request \<Rightarrow> 'b world \<Rightarrow> event list" where
  "lookups_made env (GET_group_users g) w = [Get_group g]"
| "lookups_made env (GET_group_user g u) w = membership_lookups env g u w"
| "lookups_made env (PUT_group_user g u) w = membership_lookups env g u w"
| "lookups_made env (DELETE_group_user g u) w = membership_lookups env g u w"
| "lookups_made env _ w = []"

fun built_target :: "'b env \<Rightarrow> request \<Rightarrow> 'b world \<Rightarrow> exn + target option" where
  "built_target env (GET_group_users g) w = group_only_target env g w"
| "built_target env (GET_group_user g u) w = membership_target env g u w"
| "built_target env (PUT_group_user g u) w = membership_target env g u w"
| "built_target env (DELETE_group_user g u) w = membership_target env g u w"
| "built_target env _ w = Inr None"

text \<open>
  The exception, if any, of the steps a handler takes between enforcement and its primary
  operation: resolving the domain of a listing, validating and normalising the body of a
  creation, validating the body of an update and matching its id.
\<close>

fun prechecks :: "'b env \<Rightarrow> request \<Rightarrow> exn option" where
  "prechecks env GET_groups =
     (case domain_id_for_list_request env of Inl e \<Rightarrow> Some e | Inr d \<Rightarrow> None)"
| "prechecks env POST_groups =
     (let g = dict_get (request_body_json env) ''group'' (JDict []) in
      if \<not> schema_accepts env ''group_create'' g then Some (ValidationError ''group_create'')
      else (case normalize_domain_id env (normalize_dict env g) of
              Inl e \<Rightarrow> Some e
            | Inr g2 \<Rightarrow> None))"
| "prechecks env (PATCH_group gid) =
     (let g = dict_get (request_body_json env) ''group'' (JDict []) in
      if \<not> schema_accepts env ''group_update'' g then Some (ValidationError ''group_update'')
      else (case body_id g of
              None \<Rightarrow> None
            | Some v \<Rightarrow> if v = JStr gid then None
                        else Some (ValidationError ''Cannot change ID'')))"
| "prechecks env _ = None"

text \<open>The call of the primary operation, with the arguments the request determines.\<close>

fun primary_call :: "'b env \<Rightarrow> request \<Rightarrow> event option" where
  "primary_call env GET_groups =
     (case domain_id_for_list_request env of
        Inl e \<Rightarrow> None
      | Inr d \<Rightarrow> Some (List_groups d (build_driver_hints env [''domain_id'', ''name''])))"
| "primary_call env (GET_group g) = Some (Get_group g)"
| "primary_call env POST_groups =
     (case normalize_domain_id env
             (normalize_dict env (dict_get (request_body_json env) ''group'' (JDict []))) of
        Inl e \<Rightarrow> None
      | Inr g2 \<Rightarrow> Some (Create_group g2 (audit_initiator env)))"
| "primary_call env (PATCH_group g) =
     Some (Update_group g (dict_get (request_body_json env) ''group'' (JDict []))
             (audit_initiator env))"
| "primary_call env (DELETE_group g) = Some (Delete_group g (audit_initiator env))"
| "primary_call env (GET_group_users g) =
     Some (List_users_in_group g
             (build_driver_hints env
                [''domain_id'', ''enabled'', ''name'', ''password_expires_at'']))"
| "primary_call env (GET_group_user g u) = Some (Check_user_in_group u g)"
| "primary_call env (PUT_group_user g u) = Some (Add_user_to_group u g (audit_initiator env))"
| "primary_call env (DELETE_group_user g u) =
     Some (Remove_user_from_group u g (audit_initiator env))"

text \<open>
  The calls a handler is to make once the lookups are done, and the outcome they force.
  If building the target raised, none, and that exception is the outcome. Otherwise the
  enforcer, with the request's action, the built target and the request's filters: if
  it denies, nothing more and the outcome is ForbiddenAction; if it allows and a step
  before the primary operation raises, nothing more and that exception is the outcome; if
  it allows and no such step raises, the call of the primary operation and nothing more.
\<close>

definition calls_after_lookups ::
    "'b env \<Rightarrow> request \<Rightarrow> 'b world \<Rightarrow> exn + retval \<Rightarrow> event list \<Rightarrow> bool" where
  "calls_after_lookups env req w r rest =
     (case built_target env req w of
        Inl e \<Rightarrow> rest = [] \<and> r = Inl e
      | Inr t \<Rightarrow>
          if \<not> policy env (action_of req) t (filters_of req)
          then rest = [Enforce_call (action_of req) t (filters_of req)]
               \<and> r = Inl (ForbiddenAction (action_of req))
          else (case prechecks env req of
                  Some e \<Rightarrow> rest = [Enforce_call (action_of req) t (filters_of req)]
                            \<and> r = Inl e
                | None \<Rightarrow>
                    (case primary_call env req of
                       Some ev \<Rightarrow> rest = [Enforce_call (action_of req) t (filters_of req), ev]
                     | None \<Rightarrow> False)))"

section \<open>A backend to run the handlers on\<close>

text \<open>
  A small in-memory identity backend: groups and users by id, and the membership
  relation. It stands for the parameter \<open>identity_api\<close> where a property is run on a
  concrete request.
\<close>

record store =
  st_groups :: "(string \<times> json) list"
  st_users :: "(string \<times> json) list"
  st_members :: "(string \<times> string) list"

definition mem_get_group :: "string \<Rightarrow> store \<Rightarrow> (exn + json) \<times> store" where
  "mem_get_group gid s =
     (case map_of (st_groups s) gid of
        None \<Rightarrow> (Inl (GroupNotFound gid), s)
      | Some g \<Rightarrow> (Inr g, s))"

definition mem_get_user :: "string \<Rightarrow> store \<Rightarrow> (exn + json) \<times> store" where
  "mem_get_user uid s =
     (case map_of (st_users s) uid of
        None \<Rightarrow> (Inl (UserNotFound uid), s)
      | Some u \<Rightarrow> (Inr u, s))"

definition mem_list_users_in_group :: "string \<Rightarrow> hints \<Rightarrow> store \<Rightarrow> (exn + json list) \<times> store" where
  "mem_list_users_in_group gid hs s =
     (case map_of (st_groups s) gid of
        None \<Rightarrow> (Inl (GroupNotFound gid), s)
      | Some g \<Rightarrow> (Inr (map snd (filter (\<lambda>(uid, u). (uid, gid) \<in> set (st_members s))
                                     (st_users s))), s))"

definition mem_update_group :: "string \<Rightarrow> json \<Rightarrow> json \<Rightarrow> store \<Rightarrow> (exn + json) \<times> store" where
  "mem_update_group gid g initiator s =
     (case map_of (st_groups s) gid of
        None \<Rightarrow> (Inl (GroupNotFound gid), s)
      | Some old \<Rightarrow> (Inr g, s\<lparr>st_groups := map (\<lambda>(k, v). if k = gid then (k, g) else (k, v))
                                               (st_groups s)\<rparr>))"

definition mem_delete_group :: "string \<Rightarrow> json \<Rightarrow> store \<Rightarrow> (exn + unit) \<times> store" where
  "mem_delete_group gid initiator s =
     (case map_of (st_groups s) gid of
        None \<Rightarrow> (Inl (GroupNotFound gid), s)
      | Some g \<Rightarrow> (Inr (), s\<lparr>st_groups := filter (\<lambda>(k, v). k \<noteq> gid) (st_groups s),
                              st_members := filter (\<lambda>(u, k). k \<noteq> gid) (st_members s)\<rparr>))"

definition mem_check_user_in_group :: "string \<Rightarrow> string \<Rightarrow> store \<Rightarrow> (exn + unit) \<times> store" where
  "mem_check_user_in_group uid gid s =
     (if map_of (st_users s) uid = None then (Inl (UserNotFound uid), s)
      else if map_of (st_groups s) gid = None then (Inl (GroupNotFound gid), s)
      else if (uid, gid) \<in> set (st_members s) then (Inr (), s)
      else (Inl (NotFound ''User not found in group''), s))"

definition mem_add_user_to_group :: "string \<Rightarrow> string \<Rightarrow> json \<Rightarrow> store \<Rightarrow> (exn + unit) \<times> store" where
  "mem_add_user_to_group uid gid initiator s =
     (if map_of (st_groups s) gid = None then (Inl (GroupNotFound gid), s)
      else if map_of (st_users s) uid = None then (Inl (UserNotFound uid), s)
      else (Inr (), s\<lparr>st_members := st_members s @ [(uid, gid)]\<rparr>))"

definition mem_remove_user_from_group :: "string \<Rightarrow> string \<Rightarrow> json \<Rightarrow> store \<Rightarrow> (exn + unit) \<times> store" where
  "mem_remove_user_from_group uid gid initiator s =
     (if map_of (st_users s) uid = None then (Inl (UserNotFound uid), s)
      else if map_of (st_groups s) gid = None then (Inl (GroupNotFound gid), s)
      else if (uid, gid) \<in> set (st_members s)
        then (Inr (), s\<lparr>st_members := filter (\<lambda>m. m \<noteq> (uid, gid)) (st_members s)\<rparr>)
      else (Inl (NotFound ''User not found in group''), s))"

definition mem_api :: "store identity_api" where
  "mem_api =
     \<lparr>get_group = mem_get_group,
      get_user = mem_get_user,
      list_groups = (\<lambda>domain hs s. (Inr (map snd (st_groups s)), s)),
      list_users_in_group = mem_list_users_in_group,
      create_group = (\<lambda>g initiator s. (Inr g, s\<lparr>st_groups := st_groups s @ [(''new'', g)]\<rparr>)),
      update_group = mem_update_group,
      delete_group = mem_delete_group,
      check_user_in_group = mem_check_user_in_group,
      add_user_to_group = mem_add_user_to_group,
      remove_user_from_group = mem_remove_user_from_group\<rparr>"

definition sample_env :: "bool \<Rightarrow> (string \<times> json) list \<Rightarrow> store env" where
  "sample_env allow request_body =
     \<lparr>identity_api = mem_api,
      policy = (\<lambda>action t f. allow),
      request_body_json = request_body,
      schema_accepts = (\<lambda>schema_name r. case r of JDict kvs \<Rightarrow> True | _ \<Rightarrow> False),
      normalize_dict = (\<lambda>g. g),
      normalize_domain_id = Inr,
      domain_id_for_list_request = Inr None,
      build_driver_hints = (\<lambda>filters. []),
      audit_initiator = JNull\<rparr>"

text \<open>One group \<open>g1\<close> with one member \<open>u2\<close>; no user \<open>u1\<close>, no group \<open>g9\<close>.\<close>

definition admins :: json where
  "admins = JDict [(''id'', JStr ''g1''), (''name'', JStr ''admins'')]"

definition alice :: json where
  "alice = JDict [(''id'', JStr ''u2''), (''name'', JStr ''alice'')]"

definition store0 :: store where
  "store0 = \<lparr>st_groups = [(''g1'', admins)], st_users = [(''u2'', alice)],
             st_members = [(''u2'', ''g1'')]\<rparr>"

definition world0 :: "store world" where
  "world0 = \<lparr>backend = store0, trace = []\<rparr>"

text \<open>The same backend with nothing in it.\<close>

definition store_empty :: store where
  "store_empty = \<lparr>st_groups = [], st_users = [], st_members = []\<rparr>"

definition world_empty :: "store world" where
  "world_empty = \<lparr>backend = store_empty, trace = []\<rparr>"

text \<open>A backend whose group lookup, or whose user lookup, is out of service.\<close>

definition group_lookup_down :: "store env" where
  "group_lookup_down =
     (sample_env True [])\<lparr>identity_api :=
        mem_api\<lparr>get_group := (\<lambda>gid s. (Inl (Unexpected ''backend unavailable''), s))\<rparr>\<rparr>"

definition user_lookup_down :: "store env" where
  "user_lookup_down =
     (sample_env True [])\<lparr>identity_api :=
        mem_api\<lparr>get_user := (\<lambda>uid s. (Inl (Unexpected ''backend unavailable''), s))\<rparr>\<rparr>"

section \<open>Running a handler step by step\<close>

lemmas prog_defs = succeed_def raise_def bind_prog_def try_except_def lift_def call_backend_def
  enforce_call_def

lemmas sample_defs = sample_env_def mem_api_def mem_get_group_def mem_get_user_def
  mem_list_users_in_group_def mem_update_group_def mem_delete_group_def
  mem_check_user_in_group_def mem_add_user_to_group_def mem_remove_user_from_group_def
  store0_def world0_def store_empty_def world_empty_def admins_def alice_def
  group_lookup_down_def user_lookup_down_def

lemma bind_raises: "m w = (Inl e, w1) \<Longrightarrow> bind_prog m k w = (Inl e, w1)"
  by (simp add: bind_prog_def)

lemma bind_returns: "m w = (Inr x, w1) \<Longrightarrow> bind_prog m k w = k x w1"
  by (simp add: bind_prog_def)

lemma enforce_denied:
  "\<not> policy env a t f \<Longrightarrow>
   bind_prog (enforce_call env a t f) k w
     = (Inl (ForbiddenAction a), \<lparr>backend = backend w, trace = trace w @ [Enforce_call a t f]\<rparr>)"
  by (simp add: prog_defs)

lemma enforce_allowed:
  "policy env a t f \<Longrightarrow>
   bind_prog (enforce_call env a t f) k w
     = k () \<lparr>backend = backend w, trace = trace w @ [Enforce_call a t f]\<rparr>"
  by (simp add: prog_defs)

lemma call_then_shape:
  "operation (backend w) = (r, b') \<Longrightarrow>
   bind_prog (call_backend ev operation) (\<lambda>x. succeed (shape x)) w
     = (map_sum id shape r, \<lparr>backend = b', trace = trace w @ [ev]\<rparr>)"
  by (cases r) (simp_all add: prog_defs)

text \<open>The three ways the target builder can end.\<close>

lemma build_group_raises:
  assumes "get_group (identity_api env) gid (backend w) = (Inl e, b1)"
    and "\<not> is_GroupNotFound e"
  shows "build_enforcement_target_attr env uid gid w
           = (Inl e, \<lparr>backend = b1, trace = trace w @ [Get_group gid]\<rparr>)"
  using assms by (simp add: build_enforcement_target_attr_def prog_defs)

lemma build_user_raises:
  assumes "get_group (identity_api env) gid (backend w) = (rg, b1)"
    and "lookup_masked is_GroupNotFound rg"
    and "get_user (identity_api env) uid b1 = (Inl e, b2)"
    and "\<not> is_UserNotFound e"
  shows "build_enforcement_target_attr env uid gid w
           = (Inl e, \<lparr>backend = b2, trace = trace w @ [Get_group gid, Get_user uid]\<rparr>)"
  using assms
  by (cases rg) (simp_all add: build_enforcement_target_attr_def prog_defs lookup_masked_def)

lemma build_returns:
  assumes "get_group (identity_api env) gid (backend w) = (rg, b1)"
    and "lookup_masked is_GroupNotFound rg"
    and "get_user (identity_api env) uid b1 = (ru, b2)"
    and "lookup_masked is_UserNotFound ru"
  shows "build_enforcement_target_attr env uid gid w
           = (Inr (user_entry (group_entry rg) ru),
              \<lparr>backend = b2, trace = trace w @ [Get_group gid, Get_user uid]\<rparr>)"
  using assms
  by (cases rg; cases ru)
     (simp_all add: build_enforcement_target_attr_def prog_defs lookup_masked_def
        group_entry_def user_entry_def)

section \<open>The enforcement target builder\<close>

text \<open>
  C1. For every pair of a user id and a group id, when each lookup either returns a
  record or fails with the not-found exception of its entity (GroupNotFound for the
  group, UserNotFound for the user), \<open>build_enforcement_target_attr\<close> does not raise:
  it returns a mapping that has the key \<open>group\<close> exactly when the group lookup
  succeeded and the key \<open>user\<close> exactly when the user lookup succeeded, and that is
  empty when both entities are absent.
\<close>

theorem build_target_masks_not_found:
  assumes "get_group (identity_api env) group_id (backend w) = (rg, b1)"
    and "get_user (identity_api env) user_id b1 = (ru, b2)"
    and "lookup_masked is_GroupNotFound rg"
    and "lookup_masked is_UserNotFound ru"
  shows "\<exists>t. fst (build_enforcement_target_attr env user_id group_id w) = Inr t
            \<and> (''group'' \<in> dom t \<longleftrightarrow> succeeded rg)
            \<and> (''user'' \<in> dom t \<longleftrightarrow> succeeded ru)
            \<and> (\<not> succeeded rg \<and> \<not> succeeded ru \<longrightarrow> t = Map.empty)"
proof -
  let ?t = "user_entry (group_entry rg) ru"
  have run: "fst (build_enforcement_target_attr env user_id group_id w) = Inr ?t"
    using build_returns [OF assms(1) assms(3) assms(2) assms(4)] by simp
  have "''group'' \<in> dom ?t \<longleftrightarrow> succeeded rg"
    by (cases rg; cases ru) (simp_all add: user_entry_def group_entry_def succeeded_def)
  moreover have "''user'' \<in> dom ?t \<longleftrightarrow> succeeded ru"
    by (cases rg; cases ru) (simp_all add: user_entry_def group_entry_def succeeded_def)
  moreover have "\<not> succeeded rg \<and> \<not> succeeded ru \<longrightarrow> ?t = Map.empty"
    by (cases rg; cases ru) (simp_all add: user_entry_def group_entry_def succeeded_def)
  ultimately show ?thesis using run by blast
qed

text \<open>
  On the sample backend: group \<open>g1\<close> exists and user \<open>u1\<close> does not, so the target has
  the key \<open>group\<close> only; neither \<open>g9\<close> nor \<open>u1\<close> exists, so the target is empty.
\<close>

theorem build_target_masks_not_found_witness:
  "(\<exists>t. fst (build_enforcement_target_attr (sample_env True []) ''u1'' ''g1'' world0) = Inr t
        \<and> ''group'' \<in> dom t \<and> ''user'' \<notin> dom t)
   \<and> fst (build_enforcement_target_attr (sample_env True []) ''u1'' ''g9'' world0)
       = Inr Map.empty"
proof -
  have a: "\<exists>t. fst (build_enforcement_target_attr (sample_env True []) ''u1'' ''g1'' world0) = Inr t
        \<and> ''group'' \<in> dom t \<and> ''user'' \<notin> dom t"
    using build_target_masks_not_found [of "sample_env True []" "''g1''" world0 "Inr admins"
        store0 "''u1''" "Inl (UserNotFound ''u1'')" store0]
    by (simp add: sample_defs lookup_masked_def succeeded_def)
  have b: "fst (build_enforcement_target_attr (sample_env True []) ''u1'' ''g9'' world0)
             = Inr Map.empty"
    using build_target_masks_not_found [of "sample_env True []" "''g9''" world0
        "Inl (GroupNotFound ''g9'')" store0 "''u1''" "Inl (UserNotFound ''u1'')" store0]
    by (simp add: sample_defs lookup_masked_def succeeded_def)
  show ?thesis using a b by simp
qed

text \<open>
  C9. For every input, a mapping returned by the target builder has no key other than
  \<open>group\<close> and \<open>user\<close>; a key that is present holds exactly the record that the
  corresponding backend lookup returned (\<open>get_group group_id\<close> on the state the
  builder started in, \<open>get_user user_id\<close> on the state the group lookup left). The
  builder changes nothing else: the state it leaves is the one left by these lookups, and
  the only calls it made are these lookups, whether it returns or raises.
\<close>

theorem build_target_keys_values_effects:
  assumes "build_enforcement_target_attr env user_id group_id w = (r, w')"
    and "get_group (identity_api env) group_id (backend w) = (rg, b1)"
    and "get_user (identity_api env) user_id b1 = (ru, b2)"
  shows "(w' = \<lparr>backend = b1, trace = trace w @ [Get_group group_id]\<rparr>
          \<or> w' = \<lparr>backend = b2, trace = trace w @ [Get_group group_id, Get_user user_id]\<rparr>)
         \<and> (\<forall>t. r = Inr t \<longrightarrow>
               dom t \<subseteq> {''group'', ''user''}
               \<and> (\<forall>g. t ''group'' = Some g \<longrightarrow> rg = Inr g)
               \<and> (\<forall>u. t ''user'' = Some u \<longrightarrow> ru = Inr u)
               \<and> w' = \<lparr>backend = b2,
                        trace = trace w @ [Get_group group_id, Get_user user_id]\<rparr>)"
  using assms
  by (auto simp: build_enforcement_target_attr_def prog_defs
           split: prod.splits sum.splits if_splits)

text \<open>On the sample backend, where both \<open>g1\<close> and \<open>u2\<close> exist.\<close>

theorem build_target_keys_values_effects_witness:
  "build_enforcement_target_attr (sample_env True []) ''u2'' ''g1'' world0
     = (Inr [''group'' \<mapsto> admins, ''user'' \<mapsto> alice],
        \<lparr>backend = store0, trace = [Get_group ''g1'', Get_user ''u2'']\<rparr>)
   \<and> dom [''group'' \<mapsto> admins, ''user'' \<mapsto> alice] \<subseteq> {''group'', ''user''}
   \<and> mem_get_group ''g1'' store0 = (Inr admins, store0)
   \<and> mem_get_user ''u2'' store0 = (Inr alice, store0)"
  using build_target_keys_values_effects [of "sample_env True []" "''u2''" "''g1''" world0
      "Inr [''group'' \<mapsto> admins, ''user'' \<mapsto> alice]"
      "\<lparr>backend = store0, trace = [Get_group ''g1'', Get_user ''u2'']\<rparr>"
      "Inr admins" store0 "Inr alice" store0]
  by (simp add: sample_defs build_enforcement_target_attr_def prog_defs)

section \<open>The runs of the handlers\<close>

text \<open>The group-only target of \<open>GroupUsersResource_get\<close>, then enforcement, then the listing.\<close>

lemma group_users_get_raises:
  assumes "get_group (identity_api env) gid (backend w) = (Inl e, b1)"
    and "\<not> is_GroupNotFound e"
  shows "GroupUsersResource_get env gid w
           = (Inl e, \<lparr>backend = b1, trace = trace w @ [Get_group gid]\<rparr>)"
  using assms by (simp add: GroupUsersResource_get_def prog_defs Let_def)

lemma group_users_get_denied:
  assumes "get_group (identity_api env) gid (backend w) = (rg, b1)"
    and "lookup_masked is_GroupNotFound rg"
    and "\<not> policy env ''identity:list_users_in_group'' (Some (group_entry rg))
            (Some [''domain_id'', ''enabled'', ''name'', ''password_expires_at''])"
  shows "GroupUsersResource_get env gid w
           = (Inl (ForbiddenAction ''identity:list_users_in_group''),
              \<lparr>backend = b1,
               trace = trace w @ [Get_group gid,
                 Enforce_call ''identity:list_users_in_group'' (Some (group_entry rg))
                   (Some [''domain_id'', ''enabled'', ''name'', ''password_expires_at''])]\<rparr>)"
  using assms
  by (cases rg)
     (simp_all add: GroupUsersResource_get_def prog_defs Let_def lookup_masked_def
        group_entry_def)

lemma group_users_get_allowed:
  assumes "get_group (identity_api env) gid (backend w) = (rg, b1)"
    and "lookup_masked is_GroupNotFound rg"
    and "policy env ''identity:list_users_in_group'' (Some (group_entry rg))
            (Some [''domain_id'', ''enabled'', ''name'', ''password_expires_at''])"
    and "list_users_in_group (identity_api env) gid
           (build_driver_hints env [''domain_id'', ''enabled'', ''name'', ''password_expires_at''])
           b1 = (r, b2)"
  shows "GroupUsersResource_get env gid w
           = (map_sum id (\<lambda>refs. Ret (Wrapped_collection ''users'' refs
                 (build_driver_hints env
                    [''domain_id'', ''enabled'', ''name'', ''password_expires_at'']))) r,
              \<lparr>backend = b2,
               trace = trace w @ [Get_group gid,
                 Enforce_call ''identity:list_users_in_group'' (Some (group_entry rg))
                   (Some [''domain_id'', ''enabled'', ''name'', ''password_expires_at'']),
                 List_users_in_group gid
                   (build_driver_hints env
                      [''domain_id'', ''enabled'', ''name'', ''password_expires_at''])]\<rparr>)"
  using assms
  by (cases rg; cases r)
     (simp_all add: GroupUsersResource_get_def prog_defs Let_def lookup_masked_def
        group_entry_def wrap_collection_def)

text \<open>The membership handlers, from the outcome of the target builder on.\<close>

lemma crud_get_denied:
  assumes "build_enforcement_target_attr env uid gid w = (Inr t, w1)"
    and "\<not> policy env ''identity:check_user_in_group'' (Some t) None"
  shows "UserGroupCRUDResource_get env gid uid w
           = (Inl (ForbiddenAction ''identity:check_user_in_group''),
              \<lparr>backend = backend w1,
               trace = trace w1 @ [Enforce_call ''identity:check_user_in_group'' (Some t) None]\<rparr>)"
  unfolding UserGroupCRUDResource_get_def
  using assms by (simp add: bind_returns enforce_denied)

lemma crud_put_denied:
  assumes "build_enforcement_target_attr env uid gid w = (Inr t, w1)"
    and "\<not> policy env ''identity:add_user_to_group'' (Some t) None"
  shows "UserGroupCRUDResource_put env gid uid w
           = (Inl (ForbiddenAction ''identity:add_user_to_group''),
              \<lparr>backend = backend w1,
               trace = trace w1 @ [Enforce_call ''identity:add_user_to_group'' (Some t) None]\<rparr>)"
  unfolding UserGroupCRUDResource_put_def
  using assms by (simp add: bind_returns enforce_denied)

lemma crud_delete_denied:
  assumes "build_enforcement_target_attr env uid gid w = (Inr t, w1)"
    and "\<not> policy env ''identity:remove_user_from_group'' (Some t) None"
  shows "UserGroupCRUDResource_delete env gid uid w
           = (Inl (ForbiddenAction ''identity:remove_user_from_group''),
              \<lparr>backend = backend w1,
               trace = trace w1
                 @ [Enforce_call ''identity:remove_user_from_group'' (Some t) None]\<rparr>)"
  unfolding UserGroupCRUDResource_delete_def
  using assms by (simp add: bind_returns enforce_denied)

lemma crud_get_allowed:
  assumes "build_enforcement_target_attr env uid gid w = (Inr t, w1)"
    and "policy env ''identity:check_user_in_group'' (Some t) None"
    and "check_user_in_group (identity_api env) uid gid (backend w1) = (r, b')"
  shows "UserGroupCRUDResource_get env gid uid w
           = (map_sum id (\<lambda>x. Ret_status None NO_CONTENT) r,
              \<lparr>backend = b',
               trace = trace w1 @ [Enforce_call ''identity:check_user_in_group'' (Some t) None,
                                   Check_user_in_group uid gid]\<rparr>)"
  unfolding UserGroupCRUDResource_get_def
  using assms by (simp add: bind_returns enforce_allowed call_then_shape)

lemma crud_put_allowed:
  assumes "build_enforcement_target_attr env uid gid w = (Inr t, w1)"
    and "policy env ''identity:add_user_to_group'' (Some t) None"
    and "add_user_to_group (identity_api env) uid gid (audit_initiator env) (backend w1)
           = (r, b')"
  shows "UserGroupCRUDResource_put env gid uid w
           = (map_sum id (\<lambda>x. Ret_status None NO_CONTENT) r,
              \<lparr>backend = b',
               trace = trace w1 @ [Enforce_call ''identity:add_user_to_group'' (Some t) None,
                                   Add_user_to_group uid gid (audit_initiator env)]\<rparr>)"
  unfolding UserGroupCRUDResource_put_def
  using assms by (simp add: bind_returns enforce_allowed call_then_shape)

lemma crud_delete_allowed:
  assumes "build_enforcement_target_attr env uid gid w = (Inr t, w1)"
    and "policy env ''identity:remove_user_from_group'' (Some t) None"
    and "remove_user_from_group (identity_api env) uid gid (audit_initiator env) (backend w1)
           = (r, b')"
  shows "UserGroupCRUDResource_delete env gid uid w
           = (map_sum id (\<lambda>x. Ret_status None NO_CONTENT) r,
              \<lparr>backend = b',
               trace = trace w1
                 @ [Enforce_call ''identity:remove_user_from_group'' (Some t) None,
                    Remove_user_from_group uid gid (audit_initiator env)]\<rparr>)"
  unfolding UserGroupCRUDResource_delete_def
  using assms by (simp add: bind_returns enforce_allowed call_then_shape)

lemma crud_builder_raises:
  assumes "build_enforcement_target_attr env uid gid w = (Inl e, w1)"
  shows "UserGroupCRUDResource_get env gid uid w = (Inl e, w1)"
    and "UserGroupCRUDResource_put env gid uid w = (Inl e, w1)"
    and "UserGroupCRUDResource_delete env gid uid w = (Inl e, w1)"
  unfolding UserGroupCRUDResource_get_def UserGroupCRUDResource_put_def
    UserGroupCRUDResource_delete_def
  using assms by (simp_all add: bind_raises)

text \<open>
  C8. The masking in the target builder is specific to the exception class. An exception
  of the group lookup that is not a GroupNotFound leaves the builder, and with it each
  membership handler and the list-users handler, after the single call \<open>get_group\<close>;
  an exception of the user lookup that is not a UserNotFound leaves the builder and each
  membership handler after the two lookups. In both cases the handler ends with that
  exception and the enforcer is not called.
\<close>

theorem target_masking_is_class_specific:
  assumes "get_group (identity_api env) group_id (backend w) = (rg, b1)"
    and "get_user (identity_api env) user_id b1 = (ru, b2)"
  shows "(\<forall>e. rg = Inl e \<and> \<not> is_GroupNotFound e \<longrightarrow>
            (let w1 = \<lparr>backend = b1, trace = trace w @ [Get_group group_id]\<rparr> in
             build_enforcement_target_attr env user_id group_id w = (Inl e, w1)
             \<and> UserGroupCRUDResource_get env group_id user_id w = (Inl e, w1)
             \<and> UserGroupCRUDResource_put env group_id user_id w = (Inl e, w1)
             \<and> UserGroupCRUDResource_delete env group_id user_id w = (Inl e, w1)
             \<and> GroupUsersResource_get env group_id w = (Inl e, w1)))
       \<and> (\<forall>e. lookup_masked is_GroupNotFound rg \<and> ru = Inl e \<and> \<not> is_UserNotFound e \<longrightarrow>
            (let w2 = \<lparr>backend = b2,
                       trace = trace w @ [Get_group group_id, Get_user user_id]\<rparr> in
             build_enforcement_target_attr env user_id group_id w = (Inl e, w2)
             \<and> UserGroupCRUDResource_get env group_id user_id w = (Inl e, w2)
             \<and> UserGroupCRUDResource_put env group_id user_id w = (Inl e, w2)
             \<and> UserGroupCRUDResource_delete env group_id user_id w = (Inl e, w2)))"
proof (intro conjI allI impI)
  fix e
  assume h: "rg = Inl e \<and> \<not> is_GroupNotFound e"
  have g: "get_group (identity_api env) group_id (backend w) = (Inl e, b1)"
    using assms(1) h by simp
  have b: "build_enforcement_target_attr env user_id group_id w
             = (Inl e, \<lparr>backend = b1, trace = trace w @ [Get_group group_id]\<rparr>)"
    using build_group_raises [OF g] h by simp
  show "let w1 = \<lparr>backend = b1, trace = trace w @ [Get_group group_id]\<rparr> in
        build_enforcement_target_attr env user_id group_id w = (Inl e, w1)
        \<and> UserGroupCRUDResource_get env group_id user_id w = (Inl e, w1)
        \<and> UserGroupCRUDResource_put env group_id user_id w = (Inl e, w1)
        \<and> UserGroupCRUDResource_delete env group_id user_id w = (Inl e, w1)
        \<and> GroupUsersResource_get env group_id w = (Inl e, w1)"
    using b crud_builder_raises [OF b] group_users_get_raises [OF g] h
    by (simp add: Let_def)
next
  fix e
  assume h: "lookup_masked is_GroupNotFound rg \<and> ru = Inl e \<and> \<not> is_UserNotFound e"
  have u: "get_user (identity_api env) user_id b1 = (Inl e, b2)"
    using assms(2) h by simp
  have b: "build_enforcement_target_attr env user_id group_id w
             = (Inl e, \<lparr>backend = b2,
                        trace = trace w @ [Get_group group_id, Get_user user_id]\<rparr>)"
    using build_user_raises [OF assms(1) _ u] h by simp
  show "let w2 = \<lparr>backend = b2,
                  trace = trace w @ [Get_group group_id, Get_user user_id]\<rparr> in
        build_enforcement_target_attr env user_id group_id w = (Inl e, w2)
        \<and> UserGroupCRUDResource_get env group_id user_id w = (Inl e, w2)
        \<and> UserGroupCRUDResource_put env group_id user_id w = (Inl e, w2)
        \<and> UserGroupCRUDResource_delete env group_id user_id w = (Inl e, w2)"
    using b crud_builder_raises [OF b] by (simp add: Let_def)
qed

text \<open>
  With the group lookup out of service a membership check and a listing end with the
  backend's exception after one call; with the user lookup out of service adding a member
  ends with it after the two lookups. The enforcer is in neither log.
\<close>

theorem target_masking_is_class_specific_witness:
  "UserGroupCRUDResource_get group_lookup_down ''g1'' ''u2'' world0
     = (Inl (Unexpected ''backend unavailable''),
        \<lparr>backend = store0, trace = [Get_group ''g1'']\<rparr>)
   \<and> GroupUsersResource_get group_lookup_down ''g1'' world0
     = (Inl (Unexpected ''backend unavailable''),
        \<lparr>backend = store0, trace = [Get_group ''g1'']\<rparr>)
   \<and> UserGroupCRUDResource_put user_lookup_down ''g1'' ''u2'' world0
     = (Inl (Unexpected ''backend unavailable''),
        \<lparr>backend = store0, trace = [Get_group ''g1'', Get_user ''u2'']\<rparr>)"
proof -
  have a: "UserGroupCRUDResource_get group_lookup_down ''g1'' ''u2'' world0
     = (Inl (Unexpected ''backend unavailable''),
        \<lparr>backend = store0, trace = [Get_group ''g1'']\<rparr>)
   \<and> GroupUsersResource_get group_lookup_down ''g1'' world0
     = (Inl (Unexpected ''backend unavailable''),
        \<lparr>backend = store0, trace = [Get_group ''g1'']\<rparr>)"
    using target_masking_is_class_specific [of group_lookup_down "''g1''" world0
        "Inl (Unexpected ''backend unavailable'')" store0 "''u2''" "Inr alice" store0]
    by (simp add: sample_defs Let_def)
  have b: "UserGroupCRUDResource_put user_lookup_down ''g1'' ''u2'' world0
     = (Inl (Unexpected ''backend unavailable''),
        \<lparr>backend = store0, trace = [Get_group ''g1'', Get_user ''u2'']\<rparr>)"
    using target_masking_is_class_specific [of user_lookup_down "''g1''" world0
        "Inr admins" store0 "''u2''" "Inl (Unexpected ''backend unavailable'')" store0]
    by (simp add: sample_defs Let_def lookup_masked_def)
  show ?thesis using a b by simp
qed

text \<open>
  C2. For each membership operation (check, add, remove): take two runs of the same
  request by the same caller on two states of the backend, for instance one where the
  group and the user exist and one where they do not. If in each run the enforcer denies
  the caller on the target built in that run, both runs end with the same result, the
  ForbiddenAction of the operation's action.
\<close>

theorem denied_membership_outcome_independent_of_existence:
  assumes "req \<in> {GET_group_user group_id user_id, PUT_group_user group_id user_id,
                   DELETE_group_user group_id user_id}"
    and "denied env (action_of req) user_id group_id w1"
    and "denied env (action_of req) user_id group_id w2"
  shows "fst (dispatch env req w1) = Inl (ForbiddenAction (action_of req))
       \<and> fst (dispatch env req w2) = fst (dispatch env req w1)"
proof -
  have one: "fst (dispatch env req w) = Inl (ForbiddenAction (action_of req))"
    if d: "denied env (action_of req) user_id group_id w" for w
  proof -
    obtain r w' where b: "build_enforcement_target_attr env user_id group_id w = (r, w')"
      by (cases "build_enforcement_target_attr env user_id group_id w")
    from d b obtain t where r: "r = Inr t"
      and p: "\<not> policy env (action_of req) (Some t) None"
      by (cases r) (simp_all add: denied_def)
    from b r have b': "build_enforcement_target_attr env user_id group_id w = (Inr t, w')"
      by simp
    from assms(1) consider "req = GET_group_user group_id user_id"
      | "req = PUT_group_user group_id user_id"
      | "req = DELETE_group_user group_id user_id" by blast
    then show ?thesis
    proof cases
      case 1
      with p show ?thesis using crud_get_denied [OF b'] by simp
    next
      case 2
      with p show ?thesis using crud_put_denied [OF b'] by simp
    next
      case 3
      with p show ?thesis using crud_delete_denied [OF b'] by simp
    qed
  qed
  show ?thesis using one [OF assms(2)] one [OF assms(3)] by simp
qed

text \<open>
  A caller the policy denies asks to add \<open>u2\<close> to \<open>g1\<close>: once on the backend where
  both exist, once on the empty backend.
\<close>

theorem denied_membership_outcome_independent_of_existence_witness:
  "fst (UserGroupCRUDResource_put (sample_env False []) ''g1'' ''u2'' world0)
     = Inl (ForbiddenAction ''identity:add_user_to_group'')
   \<and> fst (UserGroupCRUDResource_put (sample_env False []) ''g1'' ''u2'' world_empty)
     = fst (UserGroupCRUDResource_put (sample_env False []) ''g1'' ''u2'' world0)"
  using denied_membership_outcome_independent_of_existence
    [of "PUT_group_user ''g1'' ''u2''" "''g1''" "''u2''" "sample_env False []" world0 world_empty]
  by (simp add: denied_def build_enforcement_target_attr_def prog_defs sample_defs)

section \<open>Membership handlers\<close>

text \<open>
  C6. Adding a user that does not exist to a group that exists (the scenario
  \<^verbatim>\<open>PUT /groups/g1/users/u1\<close>): the group lookup returns the group and the user lookup
  raises UserNotFound, so the target builder returns the mapping with the group alone.
  If the policy permits the action on that target, \<open>add_user_to_group\<close> is called, and
  an exception it raises, its UserNotFound among them, is the handler's outcome.
\<close>

theorem add_member_missing_user_propagates:
  assumes "get_group (identity_api env) group_id (backend w) = (Inr g, b1)"
    and "get_user (identity_api env) user_id b1 = (Inl e0, b2)"
    and "is_UserNotFound e0"
  shows "build_enforcement_target_attr env user_id group_id w
           = (Inr [''group'' \<mapsto> g],
              \<lparr>backend = b2, trace = trace w @ [Get_group group_id, Get_user user_id]\<rparr>)
       \<and> (policy env ''identity:add_user_to_group'' (Some [''group'' \<mapsto> g]) None \<longrightarrow>
            (\<forall>e b3. add_user_to_group (identity_api env) user_id group_id (audit_initiator env) b2
                       = (Inl e, b3) \<longrightarrow>
               UserGroupCRUDResource_put env group_id user_id w
                 = (Inl e,
                    \<lparr>backend = b3,
                     trace = trace w @ [Get_group group_id, Get_user user_id,
                       Enforce_call ''identity:add_user_to_group'' (Some [''group'' \<mapsto> g]) None,
                       Add_user_to_group user_id group_id (audit_initiator env)]\<rparr>)))"
proof -
  have b: "build_enforcement_target_attr env user_id group_id w
           = (Inr [''group'' \<mapsto> g],
              \<lparr>backend = b2, trace = trace w @ [Get_group group_id, Get_user user_id]\<rparr>)"
    using build_returns [OF assms(1) _ assms(2)] assms(3)
    by (simp add: lookup_masked_def group_entry_def user_entry_def)
  have "UserGroupCRUDResource_put env group_id user_id w
          = (Inl e,
             \<lparr>backend = b3,
              trace = trace w @ [Get_group group_id, Get_user user_id,
                Enforce_call ''identity:add_user_to_group'' (Some [''group'' \<mapsto> g]) None,
                Add_user_to_group user_id group_id (audit_initiator env)]\<rparr>)"
    if "policy env ''identity:add_user_to_group'' (Some [''group'' \<mapsto> g]) None"
      and "add_user_to_group (identity_api env) user_id group_id (audit_initiator env) b2
             = (Inl e, b3)" for e b3
    using crud_put_allowed [OF b that(1)] that(2) by simp
  then show ?thesis using b by blast
qed

text \<open>On the sample backend, where \<open>g1\<close> exists and \<open>u1\<close> does not, with the policy permitting.\<close>

theorem add_member_missing_user_propagates_witness:
  "fst (build_enforcement_target_attr (sample_env True []) ''u1'' ''g1'' world0)
     = Inr [''group'' \<mapsto> admins]
   \<and> UserGroupCRUDResource_put (sample_env True []) ''g1'' ''u1'' world0
     = (Inl (UserNotFound ''u1''),
        \<lparr>backend = store0,
         trace = [Get_group ''g1'', Get_user ''u1'',
                  Enforce_call ''identity:add_user_to_group'' (Some [''group'' \<mapsto> admins]) None,
                  Add_user_to_group ''u1'' ''g1'' JNull]\<rparr>)"
  using add_member_missing_user_propagates [of "sample_env True []" "''g1''" world0 admins store0
      "''u1''" "UserNotFound ''u1''" store0]
  by (simp add: sample_defs)

text \<open>
  C10. Each membership handler calls the backend's primary operation with the user id and
  the group id of the path, whatever target the builder resolved: after the enforcer
  allowed the action, the call logged is the operation on exactly these ids and the
  handler's outcome is the outcome of that call. In particular, when the group lookup of
  the list-users handler failed with GroupNotFound and the target is empty,
  \<open>list_users_in_group\<close> is still called with the path's group id, after the
  enforcer, and an exception it raises (the not-found of the missing group) is the
  handler's outcome.
\<close>

theorem membership_handlers_pass_path_ids:
  "(\<forall>t w1. build_enforcement_target_attr env user_id group_id w = (Inr t, w1) \<longrightarrow>
      (policy env ''identity:check_user_in_group'' (Some t) None \<longrightarrow>
         (\<forall>r b'. check_user_in_group (identity_api env) user_id group_id (backend w1) = (r, b')
            \<longrightarrow> UserGroupCRUDResource_get env group_id user_id w
                  = (map_sum id (\<lambda>x. Ret_status None NO_CONTENT) r,
                     \<lparr>backend = b',
                      trace = trace w1
                        @ [Enforce_call ''identity:check_user_in_group'' (Some t) None,
                           Check_user_in_group user_id group_id]\<rparr>)))
    \<and> (policy env ''identity:add_user_to_group'' (Some t) None \<longrightarrow>
         (\<forall>r b'. add_user_to_group (identity_api env) user_id group_id (audit_initiator env)
                    (backend w1) = (r, b')
            \<longrightarrow> UserGroupCRUDResource_put env group_id user_id w
                  = (map_sum id (\<lambda>x. Ret_status None NO_CONTENT) r,
                     \<lparr>backend = b',
                      trace = trace w1
                        @ [Enforce_call ''identity:add_user_to_group'' (Some t) None,
                           Add_user_to_group user_id group_id (audit_initiator env)]\<rparr>)))
    \<and> (policy env ''identity:remove_user_from_group'' (Some t) None \<longrightarrow>
         (\<forall>r b'. remove_user_from_group (identity_api env) user_id group_id
                    (audit_initiator env) (backend w1) = (r, b')
            \<longrightarrow> UserGroupCRUDResource_delete env group_id user_id w
                  = (map_sum id (\<lambda>x. Ret_status None NO_CONTENT) r,
                     \<lparr>backend = b',
                      trace = trace w1
                        @ [Enforce_call ''identity:remove_user_from_group'' (Some t) None,
                           Remove_user_from_group user_id group_id (audit_initiator env)]\<rparr>))))
   \<and> (\<forall>e b1 r b2.
        get_group (identity_api env) group_id (backend w) = (Inl e, b1)
        \<and> is_GroupNotFound e
        \<and> policy env ''identity:list_users_in_group'' (Some Map.empty)
            (Some [''domain_id'', ''enabled'', ''name'', ''password_expires_at''])
        \<and> list_users_in_group (identity_api env) group_id
            (build_driver_hints env [''domain_id'', ''enabled'', ''name'', ''password_expires_at''])
            b1 = (r, b2)
        \<longrightarrow> GroupUsersResource_get env group_id w
              = (map_sum id (\<lambda>refs. Ret (Wrapped_collection ''users'' refs
                    (build_driver_hints env
                       [''domain_id'', ''enabled'', ''name'', ''password_expires_at'']))) r,
                 \<lparr>backend = b2,
                  trace = trace w @ [Get_group group_id,
                    Enforce_call ''identity:list_users_in_group'' (Some Map.empty)
                      (Some [''domain_id'', ''enabled'', ''name'', ''password_expires_at'']),
                    List_users_in_group group_id
                      (build_driver_hints env
                         [''domain_id'', ''enabled'', ''name'', ''password_expires_at''])]\<rparr>))"
proof (intro conjI allI impI)
  fix t w1 r b'
  assume "build_enforcement_target_attr env user_id group_id w = (Inr t, w1)"
    and "policy env ''identity:check_user_in_group'' (Some t) None"
    and "check_user_in_group (identity_api env) user_id group_id (backend w1) = (r, b')"
  then show "UserGroupCRUDResource_get env group_id user_id w
                  = (map_sum id (\<lambda>x. Ret_status None NO_CONTENT) r,
                     \<lparr>backend = b',
                      trace = trace w1
                        @ [Enforce_call ''identity:check_user_in_group'' (Some t) None,
                           Check_user_in_group user_id group_id]\<rparr>)"
    by (rule crud_get_allowed)
next
  fix t w1 r b'
  assume "build_enforcement_target_attr env user_id group_id w = (Inr t, w1)"
    and "policy env ''identity:add_user_to_group'' (Some t) None"
    and "add_user_to_group (identity_api env) user_id group_id (audit_initiator env)
           (backend w1) = (r, b')"
  then show "UserGroupCRUDResource_put env group_id user_id w
                  = (map_sum id (\<lambda>x. Ret_status None NO_CONTENT) r,
                     \<lparr>backend = b',
                      trace = trace w1
                        @ [Enforce_call ''identity:add_user_to_group'' (Some t) None,
                           Add_user_to_group user_id group_id (audit_initiator env)]\<rparr>)"
    by (rule crud_put_allowed)
next
  fix t w1 r b'
  assume "build_enforcement_target_attr env user_id group_id w = (Inr t, w1)"
    and "policy env ''identity:remove_user_from_group'' (Some t) None"
    and "remove_user_from_group (identity_api env) user_id group_id (audit_initiator env)
           (backend w1) = (r, b')"
  then show "UserGroupCRUDResource_delete env group_id user_id w
                  = (map_sum id (\<lambda>x. Ret_status None NO_CONTENT) r,
                     \<lparr>backend = b',
                      trace = trace w1
                        @ [Enforce_call ''identity:remove_user_from_group'' (Some t) None,
                           Remove_user_from_group user_id group_id (audit_initiator env)]\<rparr>)"
    by (rule crud_delete_allowed)
next
  fix e b1 r b2
  assume h: "get_group (identity_api env) group_id (backend w) = (Inl e, b1)
        \<and> is_GroupNotFound e
        \<and> policy env ''identity:list_users_in_group'' (Some Map.empty)
            (Some [''domain_id'', ''enabled'', ''name'', ''password_expires_at''])
        \<and> list_users_in_group (identity_api env) group_id
            (build_driver_hints env [''domain_id'', ''enabled'', ''name'', ''password_expires_at''])
            b1 = (r, b2)"
  show "GroupUsersResource_get env group_id w
              = (map_sum id (\<lambda>refs. Ret (Wrapped_collection ''users'' refs
                    (build_driver_hints env
                       [''domain_id'', ''enabled'', ''name'', ''password_expires_at'']))) r,
                 \<lparr>backend = b2,
                  trace = trace w @ [Get_group group_id,
                    Enforce_call ''identity:list_users_in_group'' (Some Map.empty)
                      (Some [''domain_id'', ''enabled'', ''name'', ''password_expires_at'']),
                    List_users_in_group group_id
                      (build_driver_hints env
                         [''domain_id'', ''enabled'', ''name'', ''password_expires_at''])]\<rparr>)"
    using group_users_get_allowed [of env group_id w "Inl e" b1 r b2] h
    by (simp add: lookup_masked_def group_entry_def)
qed

text \<open>
  On the sample backend with the policy permitting: removing the member \<open>u2\<close> from
  \<open>g1\<close> calls the backend with \<open>u2\<close> and \<open>g1\<close>; listing the users of the missing group
  \<open>g9\<close> calls the backend with \<open>g9\<close> after the enforcer and ends with its GroupNotFound.
\<close>

theorem membership_handlers_pass_path_ids_witness:
  "UserGroupCRUDResource_delete (sample_env True []) ''g1'' ''u2'' world0
     = (Inr (Ret_status None NO_CONTENT),
        \<lparr>backend = \<lparr>st_groups = [(''g1'', admins)], st_users = [(''u2'', alice)],
                    st_members = []\<rparr>,
         trace = [Get_group ''g1'', Get_user ''u2'',
                  Enforce_call ''identity:remove_user_from_group''
                    (Some [''group'' \<mapsto> admins, ''user'' \<mapsto> alice]) None,
                  Remove_user_from_group ''u2'' ''g1'' JNull]\<rparr>)
   \<and> GroupUsersResource_get (sample_env True []) ''g9'' world0
     = (Inl (GroupNotFound ''g9''),
        \<lparr>backend = store0,
         trace = [Get_group ''g9'',
                  Enforce_call ''identity:list_users_in_group'' (Some Map.empty)
                    (Some [''domain_id'', ''enabled'', ''name'', ''password_expires_at'']),
                  List_users_in_group ''g9'' []]\<rparr>)"
  using membership_handlers_pass_path_ids [of "sample_env True []" "''u2''" "''g1''" world0]
    membership_handlers_pass_path_ids [of "sample_env True []" "''u2''" "''g9''" world0]
  by (simp add: sample_defs build_enforcement_target_attr_def prog_defs)

text \<open>
  C7. A list-users-in-group request whose group lookup returns the group or raises
  GroupNotFound: the handler's target is the group-only target (the key \<open>group\<close> with the
  group when it resolved, the empty mapping otherwise); after the lookup the enforcer is
  called with the action \<open>identity:list_users_in_group\<close>, that target and the handler's
  filters, whether it then allows or denies; once it allows, the backend's
  \<open>list_users_in_group\<close> is called with the path's group id, and the user references it
  returns are the handler's result, a collection under the name \<open>users\<close>.
\<close>

theorem list_users_in_group_run:
  assumes "get_group (identity_api env) group_id (backend w) = (rg, b1)"
    and "lookup_masked is_GroupNotFound rg"
    and "filters = [''domain_id'', ''enabled'', ''name'', ''password_expires_at'']"
    and "GroupUsersResource_get env group_id w = (res, w')"
  shows "(\<forall>g. rg = Inr g \<longrightarrow> group_entry rg = [''group'' \<mapsto> g])
       \<and> (\<not> succeeded rg \<longrightarrow> group_entry rg = Map.empty)
       \<and> take 2 (drop (length (trace w)) (trace w'))
           = [Get_group group_id,
              Enforce_call ''identity:list_users_in_group'' (Some (group_entry rg)) (Some filters)]
       \<and> (policy env ''identity:list_users_in_group'' (Some (group_entry rg)) (Some filters) \<longrightarrow>
            (\<forall>r b2. list_users_in_group (identity_api env) group_id
                       (build_driver_hints env filters) b1 = (r, b2) \<longrightarrow>
               trace w' = trace w @ [Get_group group_id,
                   Enforce_call ''identity:list_users_in_group'' (Some (group_entry rg))
                     (Some filters),
                   List_users_in_group group_id (build_driver_hints env filters)]
               \<and> backend w' = b2
               \<and> (\<forall>refs. r = Inr refs \<longrightarrow>
                     res = Inr (Ret (Wrapped_collection ''users'' refs
                                       (build_driver_hints env filters))))))"
proof (intro conjI allI impI)
  fix g assume "rg = Inr g"
  then show "group_entry rg = [''group'' \<mapsto> g]" by (simp add: group_entry_def)
next
  assume "\<not> succeeded rg"
  then show "group_entry rg = Map.empty"
    by (cases rg) (simp_all add: group_entry_def succeeded_def)
next
  show "take 2 (drop (length (trace w)) (trace w'))
           = [Get_group group_id,
              Enforce_call ''identity:list_users_in_group'' (Some (group_entry rg)) (Some filters)]"
  proof (cases "policy env ''identity:list_users_in_group'' (Some (group_entry rg)) (Some filters)")
    case True
    obtain r b2 where l: "list_users_in_group (identity_api env) group_id
        (build_driver_hints env [''domain_id'', ''enabled'', ''name'', ''password_expires_at''])
        b1 = (r, b2)"
      by (cases "list_users_in_group (identity_api env) group_id
        (build_driver_hints env [''domain_id'', ''enabled'', ''name'', ''password_expires_at''])
        b1")
    show ?thesis
      using group_users_get_allowed [OF assms(1) assms(2) _ l] True assms(3) assms(4)
      by auto
  next
    case False
    show ?thesis
      using group_users_get_denied [OF assms(1) assms(2)] False assms(3) assms(4)
      by auto
  qed
next
  fix r b2
  assume p: "policy env ''identity:list_users_in_group'' (Some (group_entry rg)) (Some filters)"
    and l: "list_users_in_group (identity_api env) group_id
              (build_driver_hints env filters) b1 = (r, b2)"
  have run: "(res, w') = (map_sum id (\<lambda>refs. Ret (Wrapped_collection ''users'' refs
                 (build_driver_hints env filters))) r,
              \<lparr>backend = b2,
               trace = trace w @ [Get_group group_id,
                 Enforce_call ''identity:list_users_in_group'' (Some (group_entry rg))
                   (Some filters),
                 List_users_in_group group_id (build_driver_hints env filters)]\<rparr>)"
    using group_users_get_allowed [OF assms(1) assms(2), of r b2] p l assms(3) assms(4)
    by simp
  from run show "trace w' = trace w @ [Get_group group_id,
                   Enforce_call ''identity:list_users_in_group'' (Some (group_entry rg))
                     (Some filters),
                   List_users_in_group group_id (build_driver_hints env filters)]"
    by simp
  from run show "backend w' = b2" by simp
  fix refs assume "r = Inr refs"
  with run show "res = Inr (Ret (Wrapped_collection ''users'' refs
                                       (build_driver_hints env filters)))"
    by simp
qed

text \<open>On the sample backend with the policy permitting: the users of \<open>g1\<close>.\<close>

theorem list_users_in_group_run_witness:
  "GroupUsersResource_get (sample_env True []) ''g1'' world0
     = (Inr (Ret (Wrapped_collection ''users'' [alice] [])),
        \<lparr>backend = store0,
         trace = [Get_group ''g1'',
                  Enforce_call ''identity:list_users_in_group'' (Some [''group'' \<mapsto> admins])
                    (Some [''domain_id'', ''enabled'', ''name'', ''password_expires_at'']),
                  List_users_in_group ''g1'' []]\<rparr>)"
  using list_users_in_group_run [of "sample_env True []" "''g1''" world0 "Inr admins" store0
      "[''domain_id'', ''enabled'', ''name'', ''password_expires_at'']"
      "Inr (Ret (Wrapped_collection ''users'' [alice] []))"
      "\<lparr>backend = store0,
         trace = [Get_group ''g1'',
                  Enforce_call ''identity:list_users_in_group'' (Some [''group'' \<mapsto> admins])
                    (Some [''domain_id'', ''enabled'', ''name'', ''password_expires_at'']),
                  List_users_in_group ''g1'' []]\<rparr>"]
  by (simp add: sample_defs GroupUsersResource_get_def prog_defs Let_def wrap_collection_def)

section \<open>Group handlers\<close>

text \<open>
  C5. A delete-group request that passes enforcement: when the backend's
  \<open>delete_group\<close> succeeds (the group exists) the handler returns an empty body with
  the status 204; when it raises (GroupNotFound for a group that does not exist) the
  handler ends with that very exception.
\<close>

theorem delete_group_after_enforcement:
  assumes "policy env ''identity:delete_group'' None None"
    and "delete_group (identity_api env) group_id (audit_initiator env) (backend w) = (r, b')"
  shows "fst (GroupsResource_delete env group_id w)
           = (case r of Inr x \<Rightarrow> Inr (Ret_status None 204) | Inl e \<Rightarrow> Inl e)"
  using assms
  by (cases r) (simp_all add: GroupsResource_delete_def prog_defs NO_CONTENT_def)

text \<open>On the sample backend: deleting \<open>g1\<close>, which exists, and \<open>g9\<close>, which does not.\<close>

theorem delete_group_after_enforcement_witness:
  "fst (GroupsResource_delete (sample_env True []) ''g1'' world0) = Inr (Ret_status None 204)
   \<and> fst (GroupsResource_delete (sample_env True []) ''g9'' world0)
       = Inl (GroupNotFound ''g9'')"
proof -
  have a: "fst (GroupsResource_delete (sample_env True []) ''g1'' world0)
             = Inr (Ret_status None 204)"
    using delete_group_after_enforcement [of "sample_env True []" "''g1''" world0 "Inr ()"
        "\<lparr>st_groups = [], st_users = [(''u2'', alice)], st_members = []\<rparr>"]
    by (simp add: sample_defs)
  have b: "fst (GroupsResource_delete (sample_env True []) ''g9'' world0)
             = Inl (GroupNotFound ''g9'')"
    using delete_group_after_enforcement [of "sample_env True []" "''g9''" world0
        "Inl (GroupNotFound ''g9'')" store0]
    by (simp add: sample_defs)
  show ?thesis using a b by simp
qed

section \<open>The order of the calls\<close>

lemma enforce_call_not_primary: "\<not> is_primary req (Enforce_call a t f)"
  by (cases req) (simp_all add: is_primary_def)

lemma primary_call_is_primary: "primary_call env req = Some ev \<Longrightarrow> is_primary req ev"
  by (cases req) (auto simp: is_primary_def split: sum.splits)

lemma lookups_made_not_primary: "l \<in> set (lookups_made env req w) \<Longrightarrow> \<not> is_primary req l"
  by (cases req)
     (auto simp: is_primary_def membership_lookups_def split: prod.splits option.splits)

lemma calls_after_lookups_cases:
  assumes "calls_after_lookups env req w r rest"
  obtains e where "built_target env req w = Inl e" and "rest = []" and "r = Inl e"
  | t where "built_target env req w = Inr t"
      and "\<not> policy env (action_of req) t (filters_of req)"
      and "rest = [Enforce_call (action_of req) t (filters_of req)]"
      and "r = Inl (ForbiddenAction (action_of req))"
  | t e where "built_target env req w = Inr t"
      and "policy env (action_of req) t (filters_of req)"
      and "prechecks env req = Some e"
      and "rest = [Enforce_call (action_of req) t (filters_of req)]"
      and "r = Inl e"
  | t ev where "built_target env req w = Inr t"
      and "policy env (action_of req) t (filters_of req)"
      and "prechecks env req = None"
      and "primary_call env req = Some ev"
      and "rest = [Enforce_call (action_of req) t (filters_of req), ev]"
  using assms unfolding calls_after_lookups_def
  by (auto split: sum.splits if_splits option.splits)

lemma primary_is_last:
  assumes "xs @ [a, b] = pre @ ev # post" and "ev \<notin> set xs" and "ev \<noteq> a"
  shows "a \<in> set pre"
  using assms
  by (auto simp: append_eq_append_conv2 Cons_eq_append_conv append_eq_Cons_conv)

lemma primary_not_before:
  assumes "xs @ [a] = pre @ ev # post" and "ev \<notin> set xs"
  shows "ev = a"
  using assms
  by (auto simp: append_eq_append_conv2 Cons_eq_append_conv append_eq_Cons_conv)

text \<open>What the prescribed calls imply.\<close>

lemma calls_after_lookups_normal_return:
  assumes "calls_after_lookups env req w r rest" and "r = Inr x"
  shows "\<exists>t ev. built_target env req w = Inr t
           \<and> policy env (action_of req) t (filters_of req)
           \<and> primary_call env req = Some ev
           \<and> rest = [Enforce_call (action_of req) t (filters_of req), ev]"
  using assms(1)
  by (cases rule: calls_after_lookups_cases) (use assms(2) in auto)

lemma calls_after_lookups_primary_after_enforcer:
  assumes c: "calls_after_lookups env req w r rest"
    and s: "lookups_made env req w @ rest = pre @ ev # post"
    and p: "is_primary req ev"
  shows "\<exists>t f. Enforce_call (action_of req) t f \<in> set pre \<and> policy env (action_of req) t f"
proof -
  have nl: "ev \<notin> set (lookups_made env req w)"
    using p lookups_made_not_primary by blast
  have ne: "ev \<noteq> Enforce_call a t f" for a t f
    using p enforce_call_not_primary by metis
  from c show ?thesis
  proof (cases rule: calls_after_lookups_cases)
    case (1 e)
    with s nl show ?thesis by (metis append_Nil2 in_set_conv_decomp)
  next
    case (2 t)
    with s nl ne primary_not_before show ?thesis by metis
  next
    case (3 t e)
    with s nl ne primary_not_before show ?thesis by metis
  next
    case (4 t ev')
    from s 4(5) have "lookups_made env req w @ [Enforce_call (action_of req) t (filters_of req), ev']
        = pre @ ev # post" by simp
    from primary_is_last [OF this nl ne]
    show ?thesis using 4(2) by blast
  qed
qed

lemma calls_after_lookups_denial:
  assumes c: "calls_after_lookups env req w r rest"
    and d: "Enforce_call (action_of req) t f \<in> set rest" "\<not> policy env (action_of req) t f"
  shows "r = Inl (ForbiddenAction (action_of req))
       \<and> (\<forall>ev\<in>set (lookups_made env req w @ rest). \<not> is_primary req ev)"
  using c
proof (cases rule: calls_after_lookups_cases)
  case (1 e)
  with d show ?thesis by simp
next
  case (2 t')
  then show ?thesis using lookups_made_not_primary [of _ env req w]
    by (auto simp: enforce_call_not_primary)
next
  case (3 t' e)
  with d show ?thesis by auto
next
  case (4 t' ev)
  from primary_call_is_primary [OF 4(4)] have "ev \<noteq> Enforce_call (action_of req) t f"
    using enforce_call_not_primary by metis
  with 4 d show ?thesis by auto
qed

text \<open>A handler's enforcer call, and what follows it.\<close>

lemma enforce_then:
  assumes "bind_prog (enforce_call env a t f) k w = (r, w')"
  obtains "\<not> policy env a t f" and "r = Inl (ForbiddenAction a)"
      and "w' = \<lparr>backend = backend w, trace = trace w @ [Enforce_call a t f]\<rparr>"
  | "policy env a t f"
      and "k () \<lparr>backend = backend w, trace = trace w @ [Enforce_call a t f]\<rparr> = (r, w')"
proof (cases "policy env a t f")
  case True
  with assms that(2) show thesis by (simp add: enforce_allowed)
next
  case False
  with assms that(1) show thesis by (simp add: enforce_denied)
qed

lemma call_tail:
  assumes "bind_prog (call_backend ev operation) (\<lambda>x. succeed (shape x)) w1 = (r, w')"
  shows "trace w' = trace w1 @ [ev]"
proof -
  obtain r0 b' where run: "operation (backend w1) = (r0, b')"
    by (cases "operation (backend w1)")
  have "bind_prog (call_backend ev operation) (\<lambda>x. succeed (shape x)) w1
          = (map_sum id shape r0, \<lparr>backend = b', trace = trace w1 @ [ev]\<rparr>)"
    using run by (rule call_then_shape)
  with assms show ?thesis by auto
qed

text \<open>The steps between enforcement and the primary operation: each passes or raises.\<close>

lemma bind_lift_Inr: "bind_prog (lift (Inr x)) k = k x"
  by (simp add: bind_prog_def lift_def fun_eq_iff)

lemma bind_lift_Inl: "bind_prog (lift (Inl e)) k w = (Inl e, w)"
  by (simp add: bind_prog_def lift_def)

lemma bind_validate_ok:
  "schema_accepts env s g \<Longrightarrow> bind_prog (lazy_validate env s g) k = k ()"
  by (simp add: bind_prog_def lazy_validate_def succeed_def fun_eq_iff)

lemma bind_validate_bad:
  "\<not> schema_accepts env s g \<Longrightarrow>
   bind_prog (lazy_validate env s g) k w = (Inl (ValidationError s), w)"
  by (simp add: bind_prog_def lazy_validate_def raise_def)

lemma bind_matching_ok:
  "body_id g = None \<or> body_id g = Some (JStr gid) \<Longrightarrow>
   bind_prog (require_matching_id gid g) k = k ()"
  by (auto simp: bind_prog_def require_matching_id_def succeed_def fun_eq_iff)

lemma bind_matching_bad:
  "body_id g = Some v \<Longrightarrow> v \<noteq> JStr gid \<Longrightarrow>
   bind_prog (require_matching_id gid g) k w = (Inl (ValidationError ''Cannot change ID''), w)"
  by (simp add: bind_prog_def require_matching_id_def raise_def)

text \<open>
  A handler that builds no target: the enforcer first; then either a step before the
  primary operation raises, or the primary operation is called.
\<close>

lemma gated_run_meets_order:
  assumes run: "bind_prog (enforce_call env (action_of req) None (filters_of req)) k w = (r, w')"
    and no_target: "built_target env req w = Inr None" "lookups_made env req w = []"
    and fails: "\<And>e w1. prechecks env req = Some e \<Longrightarrow> k () w1 = (Inl e, w1)"
    and passes: "\<And>w1. prechecks env req = None \<Longrightarrow>
                   \<exists>ev. primary_call env req = Some ev \<and> trace (snd (k () w1)) = trace w1 @ [ev]"
  shows "\<exists>rest. trace w' = trace w @ lookups_made env req w @ rest
           \<and> calls_after_lookups env req w r rest"
  using run
proof (cases rule: enforce_then)
  case 1
  then have "trace w' = trace w @ lookups_made env req w
                 @ [Enforce_call (action_of req) None (filters_of req)]"
    and "calls_after_lookups env req w r [Enforce_call (action_of req) None (filters_of req)]"
    using no_target by (simp_all add: calls_after_lookups_def)
  then show ?thesis by blast
next
  case 2
  show ?thesis
  proof (cases "prechecks env req")
    case (Some e)
    from fails [OF Some] 2(2)
    have "r = Inl e" and "trace w' = trace w @ [Enforce_call (action_of req) None (filters_of req)]"
      by auto
    then have "trace w' = trace w @ lookups_made env req w
                 @ [Enforce_call (action_of req) None (filters_of req)]"
      and "calls_after_lookups env req w r [Enforce_call (action_of req) None (filters_of req)]"
      using no_target 2(1) Some by (simp_all add: calls_after_lookups_def)
    then show ?thesis by blast
  next
    case None
    let ?w1 = "\<lparr>backend = backend w,
                trace = trace w @ [Enforce_call (action_of req) None (filters_of req)]\<rparr>"
    from passes [OF None, of ?w1] obtain ev where ev: "primary_call env req = Some ev"
      and tr: "trace (snd (k () ?w1)) = trace ?w1 @ [ev]"
      by blast
    from tr 2(2)
    have "trace w' = trace w @ [Enforce_call (action_of req) None (filters_of req), ev]"
      by simp
    with ev have "trace w' = trace w @ lookups_made env req w
                 @ [Enforce_call (action_of req) None (filters_of req), ev]"
      and "calls_after_lookups env req w r
             [Enforce_call (action_of req) None (filters_of req), ev]"
      using no_target 2(1) None by (simp_all add: calls_after_lookups_def)
    then show ?thesis by blast
  qed
qed

lemma groups_resource_meets_order:
  assumes "dispatch env req w = (r, w')"
    and "req \<in> {GET_groups, POST_groups} \<union> range GET_group \<union> range PATCH_group
              \<union> range DELETE_group"
  shows "\<exists>rest. trace w' = trace w @ lookups_made env req w @ rest
           \<and> calls_after_lookups env req w r rest"
proof -
  from assms(2) consider "req = GET_groups" | "req = POST_groups"
    | g where "req = GET_group g" | g where "req = PATCH_group g"
    | g where "req = DELETE_group g" by auto
  then show ?thesis
  proof cases
    case 1
    show ?thesis
    proof (rule gated_run_meets_order [where k = "\<lambda>_.
        bind_prog (lift (domain_id_for_list_request env)) (\<lambda>domain.
        bind_prog (call_backend (List_groups domain
                       (build_driver_hints env [''domain_id'', ''name'']))
                     (list_groups (identity_api env) domain
                       (build_driver_hints env [''domain_id'', ''name'']))) (\<lambda>refs.
        succeed (Ret (wrap_collection refs
                        (build_driver_hints env [''domain_id'', ''name'']) None))))"])
      show "bind_prog (enforce_call env (action_of req) None (filters_of req)) (\<lambda>_.
        bind_prog (lift (domain_id_for_list_request env)) (\<lambda>domain.
        bind_prog (call_backend (List_groups domain
                       (build_driver_hints env [''domain_id'', ''name'']))
                     (list_groups (identity_api env) domain
                       (build_driver_hints env [''domain_id'', ''name'']))) (\<lambda>refs.
        succeed (Ret (wrap_collection refs
                        (build_driver_hints env [''domain_id'', ''name'']) None))))) w
          = (r, w')"
        using assms(1) 1
        by (simp add: GroupsResource_get_def GroupsResource_list_groups_def Let_def)
    next
      fix e w1
      assume "prechecks env req = Some e"
      then show "bind_prog (lift (domain_id_for_list_request env)) (\<lambda>domain.
        bind_prog (call_backend (List_groups domain
                       (build_driver_hints env [''domain_id'', ''name'']))
                     (list_groups (identity_api env) domain
                       (build_driver_hints env [''domain_id'', ''name'']))) (\<lambda>refs.
        succeed (Ret (wrap_collection refs
                        (build_driver_hints env [''domain_id'', ''name'']) None)))) w1
          = (Inl e, w1)"
        using 1 by (auto simp: bind_lift_Inl split: sum.splits)
    next
      fix w1
      assume "prechecks env req = None"
      then obtain d where d: "domain_id_for_list_request env = Inr d"
        using 1 by (auto split: sum.splits)
      have "trace (snd (bind_prog (call_backend (List_groups d
                       (build_driver_hints env [''domain_id'', ''name'']))
                     (list_groups (identity_api env) d
                       (build_driver_hints env [''domain_id'', ''name'']))) (\<lambda>refs.
        succeed (Ret (wrap_collection refs
                        (build_driver_hints env [''domain_id'', ''name'']) None))) w1))
          = trace w1 @ [List_groups d (build_driver_hints env [''domain_id'', ''name''])]"
        by (rule call_tail) (rule surjective_pairing)
      then show "\<exists>ev. primary_call env req = Some ev \<and>
        trace (snd (bind_prog (lift (domain_id_for_list_request env)) (\<lambda>domain.
        bind_prog (call_backend (List_groups domain
                       (build_driver_hints env [''domain_id'', ''name'']))
                     (list_groups (identity_api env) domain
                       (build_driver_hints env [''domain_id'', ''name'']))) (\<lambda>refs.
        succeed (Ret (wrap_collection refs
                        (build_driver_hints env [''domain_id'', ''name'']) None)))) w1))
          = trace w1 @ [ev]"
        using 1 d by (simp add: bind_lift_Inr)
    qed (use 1 in simp_all)
  next
    case 2
    let ?g = "dict_get (request_body_json env) ''group'' (JDict [])"
    show ?thesis
    proof (rule gated_run_meets_order [where k = "\<lambda>_.
        bind_prog (lazy_validate env ''group_create'' ?g) (\<lambda>_.
        bind_prog (lift (normalize_domain_id env (normalize_dict env ?g))) (\<lambda>group2.
        bind_prog (call_backend (Create_group group2 (audit_initiator env))
                     (create_group (identity_api env) group2 (audit_initiator env))) (\<lambda>ref.
        succeed (Ret_status (Some (wrap_member ref)) CREATED))))"])
      show "bind_prog (enforce_call env (action_of req) None (filters_of req)) (\<lambda>_.
        bind_prog (lazy_validate env ''group_create'' ?g) (\<lambda>_.
        bind_prog (lift (normalize_domain_id env (normalize_dict env ?g))) (\<lambda>group2.
        bind_prog (call_backend (Create_group group2 (audit_initiator env))
                     (create_group (identity_api env) group2 (audit_initiator env))) (\<lambda>ref.
        succeed (Ret_status (Some (wrap_member ref)) CREATED))))) w = (r, w')"
        using assms(1) 2 by (simp add: GroupsResource_post_def Let_def)
    next
      fix e w1
      assume "prechecks env req = Some e"
      then show "bind_prog (lazy_validate env ''group_create'' ?g) (\<lambda>_.
        bind_prog (lift (normalize_domain_id env (normalize_dict env ?g))) (\<lambda>group2.
        bind_prog (call_backend (Create_group group2 (audit_initiator env))
                     (create_group (identity_api env) group2 (audit_initiator env))) (\<lambda>ref.
        succeed (Ret_status (Some (wrap_member ref)) CREATED)))) w1 = (Inl e, w1)"
        using 2
        by (auto simp: bind_validate_ok bind_validate_bad bind_lift_Inl Let_def
                 split: sum.splits if_splits)
    next
      fix w1
      assume "prechecks env req = None"
      then obtain g2 where ok: "schema_accepts env ''group_create'' ?g"
        and g2: "normalize_domain_id env (normalize_dict env ?g) = Inr g2"
        using 2 by (auto simp: Let_def split: sum.splits if_splits)
      have "trace (snd (bind_prog (call_backend (Create_group g2 (audit_initiator env))
                     (create_group (identity_api env) g2 (audit_initiator env))) (\<lambda>ref.
        succeed (Ret_status (Some (wrap_member ref)) CREATED)) w1))
          = trace w1 @ [Create_group g2 (audit_initiator env)]"
        by (rule call_tail) (rule surjective_pairing)
      then show "\<exists>ev. primary_call env req = Some ev \<and>
        trace (snd (bind_prog (lazy_validate env ''group_create'' ?g) (\<lambda>_.
        bind_prog (lift (normalize_domain_id env (normalize_dict env ?g))) (\<lambda>group2.
        bind_prog (call_backend (Create_group group2 (audit_initiator env))
                     (create_group (identity_api env) group2 (audit_initiator env))) (\<lambda>ref.
        succeed (Ret_status (Some (wrap_member ref)) CREATED)))) w1)) = trace w1 @ [ev]"
        using 2 ok g2 by (simp add: bind_validate_ok bind_lift_Inr)
    qed (use 2 in simp_all)
  next
    case (3 g)
    show ?thesis
    proof (rule gated_run_meets_order [where k = "\<lambda>_.
        bind_prog (call_backend (Get_group g) (get_group (identity_api env) g)) (\<lambda>ref.
        succeed (Ret (wrap_member ref)))"])
      show "bind_prog (enforce_call env (action_of req) None (filters_of req)) (\<lambda>_.
        bind_prog (call_backend (Get_group g) (get_group (identity_api env) g)) (\<lambda>ref.
        succeed (Ret (wrap_member ref)))) w = (r, w')"
        using assms(1) 3 by (simp add: GroupsResource_get_def GroupsResource_get_group_def)
    next
      fix w1
      have "trace (snd (bind_prog (call_backend (Get_group g)
                (get_group (identity_api env) g)) (\<lambda>ref.
        succeed (Ret (wrap_member ref))) w1)) = trace w1 @ [Get_group g]"
        by (rule call_tail) (rule surjective_pairing)
      then show "\<exists>ev. primary_call env req = Some ev \<and>
        trace (snd (bind_prog (call_backend (Get_group g)
                (get_group (identity_api env) g)) (\<lambda>ref.
        succeed (Ret (wrap_member ref))) w1)) = trace w1 @ [ev]"
        using 3 by simp
    qed (use 3 in simp_all)
  next
    case (4 g)
    let ?g = "dict_get (request_body_json env) ''group'' (JDict [])"
    show ?thesis
    proof (rule gated_run_meets_order [where k = "\<lambda>_.
        bind_prog (lazy_validate env ''group_update'' ?g) (\<lambda>_.
        bind_prog (require_matching_id g ?g) (\<lambda>_.
        bind_prog (call_backend (Update_group g ?g (audit_initiator env))
                     (update_group (identity_api env) g ?g (audit_initiator env))) (\<lambda>ref.
        succeed (Ret (wrap_member ref)))))"])
      show "bind_prog (enforce_call env (action_of req) None (filters_of req)) (\<lambda>_.
        bind_prog (lazy_validate env ''group_update'' ?g) (\<lambda>_.
        bind_prog (require_matching_id g ?g) (\<lambda>_.
        bind_prog (call_backend (Update_group g ?g (audit_initiator env))
                     (update_group (identity_api env) g ?g (audit_initiator env))) (\<lambda>ref.
        succeed (Ret (wrap_member ref)))))) w = (r, w')"
        using assms(1) 4 by (simp add: GroupsResource_patch_def Let_def)
    next
      fix e w1
      assume "prechecks env req = Some e"
      then show "bind_prog (lazy_validate env ''group_update'' ?g) (\<lambda>_.
        bind_prog (require_matching_id g ?g) (\<lambda>_.
        bind_prog (call_backend (Update_group g ?g (audit_initiator env))
                     (update_group (identity_api env) g ?g (audit_initiator env))) (\<lambda>ref.
        succeed (Ret (wrap_member ref))))) w1 = (Inl e, w1)"
        using 4
        by (auto simp: bind_validate_ok bind_validate_bad bind_matching_bad Let_def
                 split: option.splits if_splits)
    next
      fix w1
      assume "prechecks env req = None"
      then have ok: "schema_accepts env ''group_update'' ?g"
        and same: "body_id ?g = None \<or> body_id ?g = Some (JStr g)"
        using 4 by (auto simp: Let_def split: option.splits if_splits)
      have "trace (snd (bind_prog (call_backend (Update_group g ?g (audit_initiator env))
                     (update_group (identity_api env) g ?g (audit_initiator env))) (\<lambda>ref.
        succeed (Ret (wrap_member ref))) w1))
          = trace w1 @ [Update_group g ?g (audit_initiator env)]"
        by (rule call_tail) (rule surjective_pairing)
      then show "\<exists>ev. primary_call env req = Some ev \<and>
        trace (snd (bind_prog (lazy_validate env ''group_update'' ?g) (\<lambda>_.
        bind_prog (require_matching_id g ?g) (\<lambda>_.
        bind_prog (call_backend (Update_group g ?g (audit_initiator env))
                     (update_group (identity_api env) g ?g (audit_initiator env))) (\<lambda>ref.
        succeed (Ret (wrap_member ref))))) w1)) = trace w1 @ [ev]"
        using 4 ok same by (simp add: bind_validate_ok bind_matching_ok)
    qed (use 4 in simp_all)
  next
    case (5 g)
    show ?thesis
    proof (rule gated_run_meets_order [where k = "\<lambda>_.
        bind_prog (call_backend (Delete_group g (audit_initiator env))
                     (delete_group (identity_api env) g (audit_initiator env))) (\<lambda>_.
        succeed (Ret_status None NO_CONTENT))"])
      show "bind_prog (enforce_call env (action_of req) None (filters_of req)) (\<lambda>_.
        bind_prog (call_backend (Delete_group g (audit_initiator env))
                     (delete_group (identity_api env) g (audit_initiator env))) (\<lambda>_.
        succeed (Ret_status None NO_CONTENT))) w = (r, w')"
        using assms(1) 5 by (simp add: GroupsResource_delete_def)
    next
      fix w1
      have "trace (snd (bind_prog (call_backend (Delete_group g (audit_initiator env))
                     (delete_group (identity_api env) g (audit_initiator env))) (\<lambda>_.
        succeed (Ret_status None NO_CONTENT)) w1))
          = trace w1 @ [Delete_group g (audit_initiator env)]"
        by (rule call_tail) (rule surjective_pairing)
      then show "\<exists>ev. primary_call env req = Some ev \<and>
        trace (snd (bind_prog (call_backend (Delete_group g (audit_initiator env))
                     (delete_group (identity_api env) g (audit_initiator env))) (\<lambda>_.
        succeed (Ret_status None NO_CONTENT)) w1)) = trace w1 @ [ev]"
        using 5 by simp
    qed (use 5 in simp_all)
  qed
qed

text \<open>The handlers that build a target first.\<close>

lemma unmasked_None: "unmasked catches r = None \<longleftrightarrow> lookup_masked catches r"
  by (cases r) (simp_all add: unmasked_def lookup_masked_def)

lemma unmasked_Some: "unmasked catches r = Some e \<longleftrightarrow> r = Inl e \<and> \<not> catches e"
  by (cases r) (auto simp: unmasked_def)

lemma build_meets_order:
  assumes "build_enforcement_target_attr env u g w = (r0, w1)"
  shows "membership_target env g u w = map_sum id Some r0"
    and "trace w1 = trace w @ membership_lookups env g u w"
proof -
  obtain rg b1 where g: "get_group (identity_api env) g (backend w) = (rg, b1)"
    by (cases "get_group (identity_api env) g (backend w)")
  obtain ru b2 where u: "get_user (identity_api env) u b1 = (ru, b2)"
    by (cases "get_user (identity_api env) u b1")
  have "membership_target env g u w = map_sum id Some r0
        \<and> trace w1 = trace w @ membership_lookups env g u w"
  proof (cases "unmasked is_GroupNotFound rg")
    case (Some e)
    then have e: "rg = Inl e" "\<not> is_GroupNotFound e" by (simp_all add: unmasked_Some)
    from g e(1) have "get_group (identity_api env) g (backend w) = (Inl e, b1)" by simp
    from build_group_raises [OF this e(2), of u] assms g Some show ?thesis
      by (auto simp: membership_target_def membership_lookups_def)
  next
    case None
    then have mg: "lookup_masked is_GroupNotFound rg" by (simp add: unmasked_None)
    show ?thesis
    proof (cases "unmasked is_UserNotFound ru")
      case (Some e)
      then have e: "ru = Inl e" "\<not> is_UserNotFound e" by (simp_all add: unmasked_Some)
      from u e(1) have "get_user (identity_api env) u b1 = (Inl e, b2)" by simp
      from build_user_raises [OF g mg this e(2)] assms g u None Some show ?thesis
        by (auto simp: membership_target_def membership_lookups_def)
    next
      case un: None
      then have mu: "lookup_masked is_UserNotFound ru" by (simp add: unmasked_None)
      from build_returns [OF g mg u mu] assms g u None un show ?thesis
        by (auto simp: membership_target_def membership_lookups_def)
    qed
  qed
  then show "membership_target env g u w = map_sum id Some r0"
    and "trace w1 = trace w @ membership_lookups env g u w" by simp_all
qed

lemma membership_run_meets_order:
  assumes target: "built_target env req w = membership_target env g u w"
    and lookups: "lookups_made env req w = membership_lookups env g u w"
    and filters: "filters_of req = None"
    and checks: "prechecks env req = None"
    and primary: "primary_call env req = Some ev"
    and raises: "\<And>e w1. build_enforcement_target_attr env u g w = (Inl e, w1)
                   \<Longrightarrow> h w = (Inl e, w1)"
    and denied: "\<And>t w1. build_enforcement_target_attr env u g w = (Inr t, w1)
                   \<Longrightarrow> \<not> policy env (action_of req) (Some t) None
                   \<Longrightarrow> h w = (Inl (ForbiddenAction (action_of req)),
                              \<lparr>backend = backend w1,
                               trace = trace w1
                                 @ [Enforce_call (action_of req) (Some t) None]\<rparr>)"
    and allowed: "\<And>t w1. build_enforcement_target_attr env u g w = (Inr t, w1)
                   \<Longrightarrow> policy env (action_of req) (Some t) None
                   \<Longrightarrow> trace (snd (h w))
                         = trace w1 @ [Enforce_call (action_of req) (Some t) None, ev]"
    and run: "h w = (r, w')"
  shows "\<exists>rest. trace w' = trace w @ lookups_made env req w @ rest
           \<and> calls_after_lookups env req w r rest"
proof -
  obtain r0 w1 where b: "build_enforcement_target_attr env u g w = (r0, w1)"
    by (cases "build_enforcement_target_attr env u g w")
  note spec = build_meets_order [OF b]
  show ?thesis
  proof (cases r0)
    case (Inl e)
    with raises [of e w1] b run have "r = Inl e" and "w' = w1" by simp_all
    then have "trace w' = trace w @ lookups_made env req w @ []"
      and "calls_after_lookups env req w r []"
      using spec Inl target lookups by (simp_all add: calls_after_lookups_def)
    then show ?thesis by blast
  next
    case (Inr t)
    with b have b': "build_enforcement_target_attr env u g w = (Inr t, w1)" by simp
    show ?thesis
    proof (cases "policy env (action_of req) (Some t) None")
      case False
      from denied [OF b' False] run
      have "r = Inl (ForbiddenAction (action_of req))"
        and "trace w' = trace w1 @ [Enforce_call (action_of req) (Some t) None]" by auto
      then have "trace w' = trace w @ lookups_made env req w
                   @ [Enforce_call (action_of req) (Some t) None]"
        and "calls_after_lookups env req w r [Enforce_call (action_of req) (Some t) None]"
        using spec Inr target lookups filters False
        by (simp_all add: calls_after_lookups_def)
      then show ?thesis by blast
    next
      case True
      from allowed [OF b' True] run
      have "trace w' = trace w1 @ [Enforce_call (action_of req) (Some t) None, ev]" by simp
      then have "trace w' = trace w @ lookups_made env req w
                   @ [Enforce_call (action_of req) (Some t) None, ev]"
        and "calls_after_lookups env req w r [Enforce_call (action_of req) (Some t) None, ev]"
        using spec Inr target lookups filters True checks primary
        by (simp_all add: calls_after_lookups_def)
      then show ?thesis by blast
    qed
  qed
qed

lemma membership_meets_order:
  assumes "dispatch env req w = (r, w')"
    and "req \<in> {GET_group_user g u, PUT_group_user g u, DELETE_group_user g u}"
  shows "\<exists>rest. trace w' = trace w @ lookups_made env req w @ rest
           \<and> calls_after_lookups env req w r rest"
proof -
  from assms(2) consider "req = GET_group_user g u" | "req = PUT_group_user g u"
    | "req = DELETE_group_user g u" by blast
  then show ?thesis
  proof cases
    case 1
    show ?thesis
    proof (rule membership_run_meets_order [where h = "UserGroupCRUDResource_get env g u"
            and ev = "Check_user_in_group u g" and g = g and u = u])
      fix t w1
      assume b: "build_enforcement_target_attr env u g w = (Inr t, w1)"
        and p: "policy env (action_of req) (Some t) None"
      obtain r0 b' where "check_user_in_group (identity_api env) u g (backend w1) = (r0, b')"
        by (cases "check_user_in_group (identity_api env) u g (backend w1)")
      from crud_get_allowed [OF b _ this] p 1
      show "trace (snd (UserGroupCRUDResource_get env g u w))
              = trace w1 @ [Enforce_call (action_of req) (Some t) None, Check_user_in_group u g]"
        by simp
    qed (use 1 assms(1) in \<open>simp_all add: crud_builder_raises crud_get_denied\<close>)
  next
    case 2
    show ?thesis
    proof (rule membership_run_meets_order [where h = "UserGroupCRUDResource_put env g u"
            and ev = "Add_user_to_group u g (audit_initiator env)" and g = g and u = u])
      fix t w1
      assume b: "build_enforcement_target_attr env u g w = (Inr t, w1)"
        and p: "policy env (action_of req) (Some t) None"
      obtain r0 b' where "add_user_to_group (identity_api env) u g (audit_initiator env)
          (backend w1) = (r0, b')"
        by (cases "add_user_to_group (identity_api env) u g (audit_initiator env) (backend w1)")
      from crud_put_allowed [OF b _ this] p 2
      show "trace (snd (UserGroupCRUDResource_put env g u w))
              = trace w1 @ [Enforce_call (action_of req) (Some t) None,
                            Add_user_to_group u g (audit_initiator env)]"
        by simp
    qed (use 2 assms(1) in \<open>simp_all add: crud_builder_raises crud_put_denied\<close>)
  next
    case 3
    show ?thesis
    proof (rule membership_run_meets_order [where h = "UserGroupCRUDResource_delete env g u"
            and ev = "Remove_user_from_group u g (audit_initiator env)" and g = g and u = u])
      fix t w1
      assume b: "build_enforcement_target_attr env u g w = (Inr t, w1)"
        and p: "policy env (action_of req) (Some t) None"
      obtain r0 b' where "remove_user_from_group (identity_api env) u g (audit_initiator env)
          (backend w1) = (r0, b')"
        by (cases "remove_user_from_group (identity_api env) u g (audit_initiator env)
          (backend w1)")
      from crud_delete_allowed [OF b _ this] p 3
      show "trace (snd (UserGroupCRUDResource_delete env g u w))
              = trace w1 @ [Enforce_call (action_of req) (Some t) None,
                            Remove_user_from_group u g (audit_initiator env)]"
        by simp
    qed (use 3 assms(1) in \<open>simp_all add: crud_builder_raises crud_delete_denied\<close>)
  qed
qed

lemma group_users_meets_order:
  assumes "GroupUsersResource_get env g w = (r, w')"
  shows "\<exists>rest. trace w' = trace w @ lookups_made env (GET_group_users g) w @ rest
           \<and> calls_after_lookups env (GET_group_users g) w r rest"
proof -
  let ?fs = "[''domain_id'', ''enabled'', ''name'', ''password_expires_at'']"
  let ?E = "\<lambda>rg. Enforce_call ''identity:list_users_in_group'' (Some (group_entry rg)) (Some ?fs)"
  obtain rg b1 where g: "get_group (identity_api env) g (backend w) = (rg, b1)"
    by (cases "get_group (identity_api env) g (backend w)")
  show ?thesis
  proof (cases "unmasked is_GroupNotFound rg")
    case (Some e)
    then have e: "rg = Inl e" "\<not> is_GroupNotFound e" by (simp_all add: unmasked_Some)
    from g e(1) have "get_group (identity_api env) g (backend w) = (Inl e, b1)" by simp
    from group_users_get_raises [OF this e(2)] assms
    have "r = Inl e" and "trace w' = trace w @ [Get_group g]" by auto
    then have "trace w' = trace w @ lookups_made env (GET_group_users g) w @ []"
      and "calls_after_lookups env (GET_group_users g) w r []"
      using g Some by (simp_all add: calls_after_lookups_def group_only_target_def)
    then show ?thesis by blast
  next
    case None
    then have mg: "lookup_masked is_GroupNotFound rg" by (simp add: unmasked_None)
    show ?thesis
    proof (cases "policy env ''identity:list_users_in_group'' (Some (group_entry rg)) (Some ?fs)")
      case False
      from group_users_get_denied [OF g mg False] assms
      have "r = Inl (ForbiddenAction ''identity:list_users_in_group'')"
        and "trace w' = trace w @ [Get_group g, ?E rg]" by auto
      then have "trace w' = trace w @ lookups_made env (GET_group_users g) w @ [?E rg]"
        and "calls_after_lookups env (GET_group_users g) w r [?E rg]"
        using g None False by (simp_all add: calls_after_lookups_def group_only_target_def)
      then show ?thesis by blast
    next
      case True
      obtain r0 b2 where l: "list_users_in_group (identity_api env) g
          (build_driver_hints env ?fs) b1 = (r0, b2)"
        by (cases "list_users_in_group (identity_api env) g (build_driver_hints env ?fs) b1")
      from group_users_get_allowed [OF g mg True l] assms
      have "trace w' = trace w @ [Get_group g, ?E rg,
              List_users_in_group g (build_driver_hints env ?fs)]" by auto
      then have "trace w' = trace w @ lookups_made env (GET_group_users g) w
                   @ [?E rg, List_users_in_group g (build_driver_hints env ?fs)]"
        and "calls_after_lookups env (GET_group_users g) w r
               [?E rg, List_users_in_group g (build_driver_hints env ?fs)]"
        using g None True by (simp_all add: calls_after_lookups_def group_only_target_def)
      then show ?thesis by blast
    qed
  qed
qed

lemma dispatch_meets_order:
  assumes "dispatch env req w = (r, w')"
  shows "\<exists>rest. trace w' = trace w @ lookups_made env req w @ rest
           \<and> calls_after_lookups env req w r rest"
proof (cases req)
  case (GET_group_users g)
  with assms group_users_meets_order [of env g w r w'] show ?thesis by simp
next
  case (GET_group_user g u)
  with assms membership_meets_order [of env req w r w' g u] show ?thesis by simp
next
  case (PUT_group_user g u)
  with assms membership_meets_order [of env req w r w' g u] show ?thesis by simp
next
  case (DELETE_group_user g u)
  with assms membership_meets_order [of env req w r w' g u] show ?thesis by simp
qed (use assms groups_resource_meets_order [of env req w r w'] in simp_all)

text \<open>
  C3. Every handler makes its calls in one fixed order, and makes all of them. The calls
  a request adds to the log are: the lookups that build the enforcement target (where the
  handler builds one); then, unless a lookup raised an exception the builder does not
  mask, the policy enforcer with the request's action, the target built from those
  lookups and the request's filters; then, if the enforcer allowed and no step before it
  raised, the primary operation of the identity backend with the request's arguments; and
  nothing else. So a handler that returns normally has called, in this order, its
  lookups, an allowing enforcer on the built target, and its primary operation; a call of
  the primary operation is always preceded by a call of the enforcer that allowed the
  action; and whenever the enforcer denies, the handler ends with ForbiddenAction and the
  primary operation is not called, whatever it would have returned or raised.
\<close>

theorem enforcement_precedes_backend:
  assumes "dispatch env req w = (r, w')"
  shows "\<exists>rest. trace w' = trace w @ lookups_made env req w @ rest
           \<and> calls_after_lookups env req w r rest
           \<and> (\<forall>x. r = Inr x \<longrightarrow>
                 (\<exists>t ev. built_target env req w = Inr t
                    \<and> policy env (action_of req) t (filters_of req)
                    \<and> primary_call env req = Some ev
                    \<and> rest = [Enforce_call (action_of req) t (filters_of req), ev]))
           \<and> (\<forall>pre ev post. lookups_made env req w @ rest = pre @ ev # post
                    \<and> is_primary req ev
                  \<longrightarrow> (\<exists>t f. Enforce_call (action_of req) t f \<in> set pre
                              \<and> policy env (action_of req) t f))
           \<and> (\<forall>t f. Enforce_call (action_of req) t f \<in> set rest
                      \<and> \<not> policy env (action_of req) t f
                  \<longrightarrow> r = Inl (ForbiddenAction (action_of req))
                      \<and> (\<forall>ev\<in>set (lookups_made env req w @ rest). \<not> is_primary req ev))"
proof -
  from dispatch_meets_order [OF assms] obtain rest where
    tr: "trace w' = trace w @ lookups_made env req w @ rest"
    and c: "calls_after_lookups env req w r rest"
    by blast
  have n: "\<forall>x. r = Inr x \<longrightarrow>
                 (\<exists>t ev. built_target env req w = Inr t
                    \<and> policy env (action_of req) t (filters_of req)
                    \<and> primary_call env req = Some ev
                    \<and> rest = [Enforce_call (action_of req) t (filters_of req), ev])"
    using calls_after_lookups_normal_return [OF c] by blast
  have s: "\<forall>pre ev post. lookups_made env req w @ rest = pre @ ev # post
                    \<and> is_primary req ev
                  \<longrightarrow> (\<exists>t f. Enforce_call (action_of req) t f \<in> set pre
                              \<and> policy env (action_of req) t f)"
    using calls_after_lookups_primary_after_enforcer [OF c] by blast
  have d: "\<forall>t f. Enforce_call (action_of req) t f \<in> set rest
                      \<and> \<not> policy env (action_of req) t f
                  \<longrightarrow> r = Inl (ForbiddenAction (action_of req))
                      \<and> (\<forall>ev\<in>set (lookups_made env req w @ rest). \<not> is_primary req ev)"
    using calls_after_lookups_denial [OF c] by blast
  from tr c n s d show ?thesis by blast
qed

text \<open>
  On the sample backend. A caller the policy denies asks whether the missing user
  \<open>u1\<close> is in the missing group \<open>g9\<close>: the two lookups, then the enforcer on the empty
  target, and the outcome is the ForbiddenAction, although the membership check itself
  would have raised UserNotFound. A caller the policy allows adds the user \<open>u2\<close> to the
  group \<open>g1\<close> and the handler returns: the two lookups, the enforcer on the target with
  both records, then \<open>add_user_to_group\<close>.
\<close>

theorem enforcement_precedes_backend_witness:
  "dispatch (sample_env False []) (GET_group_user ''g9'' ''u1'') world0
     = (Inl (ForbiddenAction ''identity:check_user_in_group''),
        \<lparr>backend = store0,
         trace = [Get_group ''g9'', Get_user ''u1'',
                  Enforce_call ''identity:check_user_in_group'' (Some Map.empty) None]\<rparr>)
   \<and> mem_check_user_in_group ''u1'' ''g9'' store0 = (Inl (UserNotFound ''u1''), store0)
   \<and> fst (dispatch (sample_env True []) (PUT_group_user ''g1'' ''u2'') world0)
       = Inr (Ret_status None NO_CONTENT)
   \<and> trace (snd (dispatch (sample_env True []) (PUT_group_user ''g1'' ''u2'') world0))
       = [Get_group ''g1'', Get_user ''u2'',
          Enforce_call ''identity:add_user_to_group''
            (Some [''group'' \<mapsto> admins, ''user'' \<mapsto> alice]) None,
          Add_user_to_group ''u2'' ''g1'' JNull]"
proof -
  have a: "dispatch (sample_env False []) (GET_group_user ''g9'' ''u1'') world0
     = (Inl (ForbiddenAction ''identity:check_user_in_group''),
        \<lparr>backend = store0,
         trace = [Get_group ''g9'', Get_user ''u1'',
                  Enforce_call ''identity:check_user_in_group'' (Some Map.empty) None]\<rparr>)
   \<and> mem_check_user_in_group ''u1'' ''g9'' store0 = (Inl (UserNotFound ''u1''), store0)"
    using enforcement_precedes_backend [of "sample_env False []" "GET_group_user ''g9'' ''u1''"
      world0 "Inl (ForbiddenAction ''identity:check_user_in_group'')"
      "\<lparr>backend = store0,
         trace = [Get_group ''g9'', Get_user ''u1'',
                  Enforce_call ''identity:check_user_in_group'' (Some Map.empty) None]\<rparr>"]
    by (simp add: sample_defs UserGroupCRUDResource_get_def build_enforcement_target_attr_def
          prog_defs)
  have run: "dispatch (sample_env True []) (PUT_group_user ''g1'' ''u2'') world0
      = (Inr (Ret_status None NO_CONTENT),
         snd (dispatch (sample_env True []) (PUT_group_user ''g1'' ''u2'') world0))"
    by (simp add: sample_defs UserGroupCRUDResource_put_def build_enforcement_target_attr_def
          prog_defs)
  have b: "trace (snd (dispatch (sample_env True []) (PUT_group_user ''g1'' ''u2'') world0))
       = [Get_group ''g1'', Get_user ''u2'',
          Enforce_call ''identity:add_user_to_group''
            (Some [''group'' \<mapsto> admins, ''user'' \<mapsto> alice]) None,
          Add_user_to_group ''u2'' ''g1'' JNull]"
    using enforcement_precedes_backend [OF run]
    by (auto simp: sample_defs membership_lookups_def membership_target_def unmasked_def
          group_entry_def user_entry_def)
  have c: "fst (dispatch (sample_env True []) (PUT_group_user ''g1'' ''u2'') world0)
             = Inr (Ret_status None NO_CONTENT)"
    using run by (metis fst_conv)
  show ?thesis using a b c by simp
qed

section \<open>Updating a group\<close>

text \<open>The four ways an update-group request can go.\<close>

lemma patch_denied:
  assumes "\<not> policy env ''identity:update_group'' None None"
  shows "GroupsResource_patch env g w
           = (Inl (ForbiddenAction ''identity:update_group''),
              \<lparr>backend = backend w,
               trace = trace w @ [Enforce_call ''identity:update_group'' None None]\<rparr>)"
  unfolding GroupsResource_patch_def using assms by (simp add: enforce_denied)

lemma patch_schema_rejects:
  assumes "policy env ''identity:update_group'' None None"
    and "\<not> schema_accepts env ''group_update''
            (dict_get (request_body_json env) ''group'' (JDict []))"
  shows "GroupsResource_patch env g w
           = (Inl (ValidationError ''group_update''),
              \<lparr>backend = backend w,
               trace = trace w @ [Enforce_call ''identity:update_group'' None None]\<rparr>)"
  unfolding GroupsResource_patch_def using assms
  by (simp add: prog_defs Let_def lazy_validate_def)

lemma patch_id_mismatch:
  assumes "policy env ''identity:update_group'' None None"
    and "schema_accepts env ''group_update''
           (dict_get (request_body_json env) ''group'' (JDict []))"
    and "body_id (dict_get (request_body_json env) ''group'' (JDict [])) = Some v"
    and "v \<noteq> JStr g"
  shows "GroupsResource_patch env g w
           = (Inl (ValidationError ''Cannot change ID''),
              \<lparr>backend = backend w,
               trace = trace w @ [Enforce_call ''identity:update_group'' None None]\<rparr>)"
  unfolding GroupsResource_patch_def using assms
  by (simp add: prog_defs Let_def lazy_validate_def require_matching_id_def)

lemma patch_passes_through:
  assumes "policy env ''identity:update_group'' None None"
    and "schema_accepts env ''group_update''
           (dict_get (request_body_json env) ''group'' (JDict []))"
    and "body_id (dict_get (request_body_json env) ''group'' (JDict [])) = None
         \<or> body_id (dict_get (request_body_json env) ''group'' (JDict [])) = Some (JStr g)"
    and "update_group (identity_api env) g
           (dict_get (request_body_json env) ''group'' (JDict [])) (audit_initiator env)
           (backend w) = (r0, b')"
  shows "GroupsResource_patch env g w
           = (map_sum id (\<lambda>ref. Ret (Wrapped_member ''group'' ref)) r0,
              \<lparr>backend = b',
               trace = trace w @ [Enforce_call ''identity:update_group'' None None,
                 Update_group g (dict_get (request_body_json env) ''group'' (JDict []))
                   (audit_initiator env)]\<rparr>)"
  unfolding GroupsResource_patch_def using assms
  by (cases r0)
     (auto simp: prog_defs Let_def lazy_validate_def require_matching_id_def
        wrap_member_def member_key_def)

text \<open>
  C4, as the code has it. The claim as written fails for a caller the enforcer denies
  (the outcome is ForbiddenAction, and enforcement comes before validation) and for a
  body the schema rejects. What holds: when the body of an update-group request carries
  an \<open>id\<close> that differs from the path's group id, the backend's \<open>update_group\<close> is
  never called (the only call made is the enforcer's) and, provided the enforcer allows
  the action, the handler fails with a ValidationError. When the enforcer allows the
  action, the schema accepts the body and the body's \<open>id\<close> is absent or equal to the
  path's group id, \<open>update_group\<close> is called with the path's group id and the body,
  and its outcome is the handler's.
\<close>

theorem update_group_id_check:
  assumes "payload = dict_get (request_body_json env) ''group'' (JDict [])"
    and "GroupsResource_patch env group_id w = (r, w')"
  shows "(\<forall>v. body_id payload = Some v \<and> v \<noteq> JStr group_id \<longrightarrow>
            trace w' = trace w @ [Enforce_call ''identity:update_group'' None None]
            \<and> (policy env ''identity:update_group'' None None
                 \<longrightarrow> (\<exists>m. r = Inl (ValidationError m))))
       \<and> (policy env ''identity:update_group'' None None
           \<and> schema_accepts env ''group_update'' payload
           \<and> (body_id payload = None \<or> body_id payload = Some (JStr group_id)) \<longrightarrow>
            (\<forall>r0 b'. update_group (identity_api env) group_id payload (audit_initiator env)
                        (backend w) = (r0, b') \<longrightarrow>
               r = map_sum id (\<lambda>ref. Ret (Wrapped_member ''group'' ref)) r0
               \<and> w' = \<lparr>backend = b',
                        trace = trace w @ [Enforce_call ''identity:update_group'' None None,
                          Update_group group_id payload (audit_initiator env)]\<rparr>))"
proof (intro conjI allI impI)
  fix v
  assume h: "body_id payload = Some v \<and> v \<noteq> JStr group_id"
  have ends: "trace w' = trace w @ [Enforce_call ''identity:update_group'' None None]
              \<and> (policy env ''identity:update_group'' None None
                   \<longrightarrow> (\<exists>m. r = Inl (ValidationError m)))"
  proof (cases "policy env ''identity:update_group'' None None")
    case False
    from patch_denied [OF False, of group_id w] assms(2) show ?thesis using False by auto
  next
    case True
    show ?thesis
    proof (cases "schema_accepts env ''group_update'' payload")
      case False
      with patch_schema_rejects [OF True, of group_id w] assms show ?thesis by auto
    next
      case ok: True
      from h assms(1)
      have "body_id (dict_get (request_body_json env) ''group'' (JDict [])) = Some v"
        and "v \<noteq> JStr group_id" by simp_all
      from patch_id_mismatch [OF True _ this, of w] ok assms show ?thesis by auto
    qed
  qed
  from ends show "trace w' = trace w @ [Enforce_call ''identity:update_group'' None None]"
    by simp
  from ends show "policy env ''identity:update_group'' None None
    \<Longrightarrow> \<exists>m. r = Inl (ValidationError m)" by simp
next
  fix r0 b'
  assume h: "policy env ''identity:update_group'' None None
           \<and> schema_accepts env ''group_update'' payload
           \<and> (body_id payload = None \<or> body_id payload = Some (JStr group_id))"
    and u: "update_group (identity_api env) group_id payload (audit_initiator env)
              (backend w) = (r0, b')"
  have run: "(r, w') = (map_sum id (\<lambda>ref. Ret (Wrapped_member ''group'' ref)) r0,
              \<lparr>backend = b',
               trace = trace w @ [Enforce_call ''identity:update_group'' None None,
                 Update_group group_id payload (audit_initiator env)]\<rparr>)"
    using patch_passes_through [of env group_id w r0 b'] h u assms by simp
  from run show "r = map_sum id (\<lambda>ref. Ret (Wrapped_member ''group'' ref)) r0" by simp
  from run show "w' = \<lparr>backend = b',
                        trace = trace w @ [Enforce_call ''identity:update_group'' None None,
                          Update_group group_id payload (audit_initiator env)]\<rparr>" by simp
qed

text \<open>
  On the sample backend with the policy permitting: a body whose \<open>id\<close> is \<open>g2\<close> sent to
  \<^verbatim>\<open>/groups/g1\<close> is refused with a ValidationError after the enforcer's call alone; a body
  whose \<open>id\<close> is \<open>g1\<close> reaches \<open>update_group\<close>.
\<close>

theorem update_group_id_check_witness:
  "GroupsResource_patch
     (sample_env True [(''group'', JDict [(''id'', JStr ''g2''), (''name'', JStr ''ops'')])])
     ''g1'' world0
     = (Inl (ValidationError ''Cannot change ID''),
        \<lparr>backend = store0, trace = [Enforce_call ''identity:update_group'' None None]\<rparr>)
   \<and> fst (GroupsResource_patch
          (sample_env True [(''group'', JDict [(''id'', JStr ''g1''), (''name'', JStr ''ops'')])])
          ''g1'' world0)
     = Inr (Ret (Wrapped_member ''group''
                   (JDict [(''id'', JStr ''g1''), (''name'', JStr ''ops'')])))"
proof -
  have a: "GroupsResource_patch
     (sample_env True [(''group'', JDict [(''id'', JStr ''g2''), (''name'', JStr ''ops'')])])
     ''g1'' world0
     = (Inl (ValidationError ''Cannot change ID''),
        \<lparr>backend = store0, trace = [Enforce_call ''identity:update_group'' None None]\<rparr>)"
    using update_group_id_check
      [of "JDict [(''id'', JStr ''g2''), (''name'', JStr ''ops'')]"
          "sample_env True [(''group'', JDict [(''id'', JStr ''g2''), (''name'', JStr ''ops'')])]"
          "''g1''" world0 "Inl (ValidationError ''Cannot change ID'')"
          "\<lparr>backend = store0, trace = [Enforce_call ''identity:update_group'' None None]\<rparr>"]
    by (simp add: sample_defs dict_get_def body_id_def GroupsResource_patch_def prog_defs
          lazy_validate_def require_matching_id_def Let_def)
  have b: "fst (GroupsResource_patch
          (sample_env True [(''group'', JDict [(''id'', JStr ''g1''), (''name'', JStr ''ops'')])])
          ''g1'' world0)
     = Inr (Ret (Wrapped_member ''group''
                   (JDict [(''id'', JStr ''g1''), (''name'', JStr ''ops'')])))"
    using update_group_id_check
      [of "JDict [(''id'', JStr ''g1''), (''name'', JStr ''ops'')]"
          "sample_env True [(''group'', JDict [(''id'', JStr ''g1''), (''name'', JStr ''ops'')])]"
          "''g1''" world0
          "fst (GroupsResource_patch
             (sample_env True
                [(''group'', JDict [(''id'', JStr ''g1''), (''name'', JStr ''ops'')])])
             ''g1'' world0)"
          "snd (GroupsResource_patch
             (sample_env True
                [(''group'', JDict [(''id'', JStr ''g1''), (''name'', JStr ''ops'')])])
             ''g1'' world0)"]
    by (simp add: sample_defs dict_get_def body_id_def)
  show ?thesis using a b by simp
qed

text \<open>
  The claim as written, refuted: a caller the policy denies sends a body whose \<open>id\<close> is
  \<open>g2\<close> to \<^verbatim>\<open>/groups/g1\<close> and gets ForbiddenAction, not a ValidationError; a caller the
  policy allows sends a body that is not an object, so that it carries no \<open>id\<close>, and the
  update does not reach the backend.
\<close>

theorem update_group_id_check_counterexample:
  "body_id (dict_get [(''group'', JDict [(''id'', JStr ''g2'')])] ''group'' (JDict []))
     = Some (JStr ''g2'')
   \<and> GroupsResource_patch (sample_env False [(''group'', JDict [(''id'', JStr ''g2'')])])
       ''g1'' world0
     = (Inl (ForbiddenAction ''identity:update_group''),
        \<lparr>backend = store0, trace = [Enforce_call ''identity:update_group'' None None]\<rparr>)
   \<and> body_id (dict_get [(''group'', JList [])] ''group'' (JDict [])) = None
   \<and> GroupsResource_patch (sample_env True [(''group'', JList [])]) ''g1'' world0
     = (Inl (ValidationError ''group_update''),
        \<lparr>backend = store0, trace = [Enforce_call ''identity:update_group'' None None]\<rparr>)"
  by (simp add: sample_defs dict_get_def body_id_def GroupsResource_patch_def prog_defs
        lazy_validate_def require_matching_id_def Let_def)

end
